theory Spec2Isabelle
  imports Main
begin

section \<open>The quickstart sample as a program over an external world\<close>

text \<open>
  The repository is one straight-line Python script,
  \<^verbatim>\<open>samples/microsoft/python/getting-started-agents/quickstart.py\<close>. It defines no
  function of its own: it imports names, calls into libraries, binds the results to
  module-level names, prints, tests a run status twice and iterates twice over a list of
  messages. The embedding keeps exactly that: the module namespace is a map from names to
  values, every library operation (an import or a call) is answered by the world, and the
  run leaves a trace of the operations it issued and the lines it printed. An uncaught
  Python exception is the \<open>Inl\<close> result of the run.
\<close>

subsection \<open>Values, exceptions, events\<close>

text \<open>
  \<open>VObj\<close> is a value with named fields, read as attributes (\<open>agent.id\<close>) or by string
  subscript (\<open>message['id']\<close>); it also stands for the dict literals of the script.
  \<open>Handle p\<close> is a library object (a class, a client, a bound method) known by its
  attribute path \<open>p\<close>: an attribute of a handle is the handle of the longer path, and
  calling a handle is an operation answered by the world. \<open>OsModule\<close> is the module
  \<open>os\<close>, whose attribute \<open>environ\<close> is the process environment.
\<close>

datatype val =
    VNone
  | VBool bool
  | VInt int
  | VStr string
  | VList "val list"
  | VObj "(string \<times> val) list"
  | Handle string
  | OsModule

datatype exn =
    NameError string
  | KeyError string
  | AttributeError string
  | IndexError
  | TypeError
  | Raised string

text \<open>
  \<open>Raised x\<close> is any exception a library operation raises (a failed import, an
  authentication failure, a network error, an SDK exception). A positional argument of a
  call is recorded under the empty keyword.
\<close>

datatype event =
    Import string string
  | Call string "(string \<times> val) list"
  | Print "val list"

text \<open>
  The world: the process environment as \<open>os.environ\<close> presents it (variable and
  value, the first entry of a variable counting), and the outcome of
  the \<open>k\<close>-th library operation (import or call) the script issues, counted from 0.
\<close>

record world =
  environ :: "(string \<times> string) list"
  reply :: "nat \<Rightarrow> exn + val"

record state =
  globals :: "string \<rightharpoonup> val"
  trace :: "event list"

type_synonym 'a exec = "world \<Rightarrow> state \<Rightarrow> (exn + 'a) \<times> state"

fun is_op :: "event \<Rightarrow> bool" where
  "is_op (Import m n) = True"
| "is_op (Call p as) = True"
| "is_op (Print vs) = False"

fun is_call :: "event \<Rightarrow> bool" where
  "is_call (Call p as) = True"
| "is_call (Import m n) = False"
| "is_call (Print vs) = False"

definition issued :: "state \<Rightarrow> nat" where
  "issued s = length (filter is_op (trace s))"

subsection \<open>Sequencing and failure\<close>

definition ret :: "'a \<Rightarrow> 'a exec" where
  "ret x w s = (Inr x, s)"

definition raise :: "exn \<Rightarrow> 'a exec" where
  "raise e w s = (Inl e, s)"

definition bind :: "'a exec \<Rightarrow> ('a \<Rightarrow> 'b exec) \<Rightarrow> 'b exec" where
  "bind m f w s = (case m w s of (Inl e, s') \<Rightarrow> (Inl e, s') | (Inr x, s') \<Rightarrow> f x w s')"

definition lift :: "exn + 'a \<Rightarrow> 'a exec" where
  "lift r w s = (r, s)"

text \<open>A library operation: it is recorded, and the world's next reply is its outcome.\<close>

definition external :: "event \<Rightarrow> val exec" where
  "external ev w s = (reply w (issued s), s\<lparr>trace := trace s @ [ev]\<rparr>)"

text \<open>Binding a module-level name, and writing a line to standard output.\<close>

definition store :: "string \<Rightarrow> val \<Rightarrow> unit exec" where
  "store n v w s = (Inr (), s\<lparr>globals := (globals s)(n \<mapsto> v)\<rparr>)"

definition emit :: "event \<Rightarrow> unit exec" where
  "emit ev w s = (Inr (), s\<lparr>trace := trace s @ [ev]\<rparr>)"

subsection \<open>Python's value operations\<close>

fun getattr :: "world \<Rightarrow> val \<Rightarrow> string \<Rightarrow> exn + val" where
  "getattr w (VObj fs) a =
     (case map_of fs a of None \<Rightarrow> Inl (AttributeError a) | Some v \<Rightarrow> Inr v)"
| "getattr w (Handle p) a = Inr (Handle (p @ ''.'' @ a))"
| "getattr w OsModule a =
     (if a = ''environ'' then Inr (VObj (map (\<lambda>(k, v). (k, VStr v)) (environ w)))
      else Inl (AttributeError a))"
| "getattr w v a = Inl (AttributeError a)"

text \<open>\<open>xs[i]\<close>: a negative index counts from the end; outside the list it is an IndexError.\<close>

definition index :: "val list \<Rightarrow> int \<Rightarrow> exn + val" where
  "index xs i =
     (if 0 \<le> i \<and> i < int (length xs) then Inr (xs ! nat i)
      else if i < 0 \<and> - int (length xs) \<le> i then Inr (xs ! nat (int (length xs) + i))
      else Inl IndexError)"

fun getitem :: "val \<Rightarrow> val \<Rightarrow> exn + val" where
  "getitem (VObj fs) (VStr k) =
     (case map_of fs k of None \<Rightarrow> Inl (KeyError k) | Some v \<Rightarrow> Inr v)"
| "getitem (VList xs) (VInt i) = index xs i"
| "getitem v k = Inl TypeError"

fun iter :: "val \<Rightarrow> exn + val list" where
  "iter (VList xs) = Inr xs"
| "iter v = Inl TypeError"

fun truthy :: "val \<Rightarrow> bool" where
  "truthy VNone = False"
| "truthy (VBool b) = b"
| "truthy (VInt i) = (i \<noteq> 0)"
| "truthy (VStr s) = (s \<noteq> [])"
| "truthy (VList xs) = (xs \<noteq> [])"
| "truthy (VObj fs) = (fs \<noteq> [])"
| "truthy (Handle p) = True"
| "truthy OsModule = True"

fun apply_val :: "val \<Rightarrow> (string \<times> val) list \<Rightarrow> val exec" where
  "apply_val (Handle p) as = external (Call p as)"
| "apply_val v as = raise TypeError"

subsection \<open>Expressions\<close>

text \<open>
  An expression evaluates its parts left to right: the callee before the arguments, the
  arguments in the order written, and only then the call.
\<close>

definition name :: "string \<Rightarrow> val exec" where
  "name n w s = (case globals s n of None \<Rightarrow> (Inl (NameError n), s) | Some v \<Rightarrow> (Inr v, s))"

definition lit :: "val \<Rightarrow> val exec" where
  "lit v = ret v"

definition read_attr :: "val \<Rightarrow> string \<Rightarrow> val exec" where
  "read_attr v a w s = (getattr w v a, s)"

definition attr :: "val exec \<Rightarrow> string \<Rightarrow> val exec" where
  "attr e a = bind e (\<lambda>v. read_attr v a)"

definition subscr :: "val exec \<Rightarrow> val exec \<Rightarrow> val exec" where
  "subscr e k = bind e (\<lambda>v. bind k (\<lambda>i. lift (getitem v i)))"

fun evals :: "val exec list \<Rightarrow> val list exec" where
  "evals [] = ret []"
| "evals (e # es) = bind e (\<lambda>v. bind (evals es) (\<lambda>vs. ret (v # vs)))"

fun eval_args :: "(string \<times> val exec) list \<Rightarrow> (string \<times> val) list exec" where
  "eval_args [] = ret []"
| "eval_args ((k, e) # as) = bind e (\<lambda>v. bind (eval_args as) (\<lambda>vs. ret ((k, v) # vs)))"

definition list_of :: "val exec list \<Rightarrow> val exec" where
  "list_of es = bind (evals es) (\<lambda>vs. ret (VList vs))"

definition call :: "val exec \<Rightarrow> (string \<times> val exec) list \<Rightarrow> val exec" where
  "call f as = bind f (\<lambda>fv. bind (eval_args as) (\<lambda>vs. apply_val fv vs))"

definition eq :: "val exec \<Rightarrow> val exec \<Rightarrow> val exec" where
  "eq a b = bind a (\<lambda>x. bind b (\<lambda>y. ret (VBool (x = y))))"

subsection \<open>Statements\<close>

definition assign :: "string \<Rightarrow> val exec \<Rightarrow> unit exec" where
  "assign n e = bind e (store n)"

definition expr :: "val exec \<Rightarrow> unit exec" where
  "expr e = bind e (\<lambda>v. ret ())"

definition import_from :: "string \<Rightarrow> string \<Rightarrow> unit exec" where
  "import_from m n = assign n (external (Import m n))"

text \<open>\<open>print(f"...")\<close>: the pieces of the line, literal text and formatted values, in order.\<close>

definition print :: "val exec list \<Rightarrow> unit exec" where
  "print es = bind (evals es) (\<lambda>vs. emit (Print vs))"

definition if_then :: "val exec \<Rightarrow> unit exec \<Rightarrow> unit exec" where
  "if_then c body = bind c (\<lambda>v. if truthy v then body else ret ())"

fun for_items :: "string \<Rightarrow> val list \<Rightarrow> unit exec \<Rightarrow> unit exec" where
  "for_items x [] body = ret ()"
| "for_items x (v # vs) body =
     bind (assign x (lit v)) (\<lambda>u. bind body (\<lambda>u'. for_items x vs body))"

definition for_in :: "string \<Rightarrow> val exec \<Rightarrow> unit exec \<Rightarrow> unit exec" where
  "for_in x e body = bind e (\<lambda>v. bind (lift (iter v)) (\<lambda>items. for_items x items body))"

fun block :: "unit exec list \<Rightarrow> unit exec" where
  "block [] = ret ()"
| "block (c # cs) = bind c (\<lambda>u. block cs)"

subsection \<open>The script, section by section\<close>

text \<open>\<open>os.environ["K"]\<close>: the script never imports \<open>os\<close>; the name is looked up like any other.\<close>

definition os_environ :: "string \<Rightarrow> val exec" where
  "os_environ k = subscr (attr (name ''os'') ''environ'') (lit (VStr k))"

text \<open>Lines 24-25.\<close>

definition load_env :: "unit exec" where
  "load_env = block [
     import_from ''dotenv'' ''load_dotenv'',
     expr (call (name ''load_dotenv'') [])]"

text \<open>Lines 31-54, the region \<open>chat_completion\<close>.\<close>

definition chat_completion :: "unit exec" where
  "chat_completion = block [
     import_from ''azure.ai.projects.onedp'' ''AIProjectClient'',
     import_from ''azure.identity'' ''DefaultAzureCredential'',
     import_from ''azure.ai.projects'' ''FileSearchTool'',
     assign ''project_client'' (call (name ''AIProjectClient'') [
       (''endpoint'', os_environ ''PROJECT_ENDPOINT''),
       (''credential'', call (name ''DefaultAzureCredential'') [])]),
     assign ''openai'' (call (attr (name ''project_client'') ''get_openai_client'') [
       (''api_version'', lit (VStr ''2024-06-01''))]),
     assign ''response''
       (call (attr (attr (attr (name ''openai'') ''chat'') ''completions'') ''create'') [
         (''model'', os_environ ''MODEL_DEPLOYMENT_NAME''),
         (''messages'', lit (VList [
            VObj [(''role'', VStr ''system''), (''content'', VStr ''You are a helpful writing assistant'')],
            VObj [(''role'', VStr ''user''), (''content'', VStr ''Write me a poem about flowers'')]]))]),
     print [attr (attr (subscr (attr (name ''response'') ''choices'') (lit (VInt 0))) ''message'') ''content'']]"

text \<open>Lines 56-93, the region \<open>create_and_run_agent\<close>.\<close>

definition create_and_run_agent :: "unit exec" where
  "create_and_run_agent = block [
     assign ''agent'' (call (attr (attr (name ''project_client'') ''agents'') ''create_agent'') [
       (''model'', os_environ ''MODEL_DEPLOYMENT_NAME''),
       (''name'', lit (VStr ''my-agent'')),
       (''instructions'', lit (VStr ''You are a helpful writing assistant''))]),
     print [lit (VStr ''Created agent, ID: ''), attr (name ''agent'') ''id''],
     assign ''thread''
       (call (attr (attr (attr (name ''project_client'') ''agents'') ''threads'') ''create'') []),
     print [lit (VStr ''Created thread, ID: ''), attr (name ''thread'') ''id''],
     assign ''message''
       (call (attr (attr (attr (name ''project_client'') ''agents'') ''messages'') ''create'') [
         (''thread_id'', attr (name ''thread'') ''id''),
         (''role'', lit (VStr ''user'')),
         (''content'', lit (VStr ''Write me a poem about flowers''))]),
     print [lit (VStr ''Created message, ID: ''), subscr (name ''message'') (lit (VStr ''id''))],
     assign ''run''
       (call (attr (attr (attr (name ''project_client'') ''agents'') ''runs'') ''create_and_process'') [
         (''thread_id'', attr (name ''thread'') ''id''),
         (''agent_id'', attr (name ''agent'') ''id'')]),
     print [lit (VStr ''Run finished with status: ''), attr (name ''run'') ''status''],
     if_then (eq (attr (name ''run'') ''status'') (lit (VStr ''failed'')))
       (print [lit (VStr ''Run failed: ''), attr (name ''run'') ''last_error'']),
     assign ''messages''
       (call (attr (attr (attr (name ''project_client'') ''agents'') ''messages'') ''list'') [
         (''thread_id'', attr (name ''thread'') ''id'')]),
     for_in ''message'' (name ''messages'')
       (print [lit (VStr ''Role: ''), attr (name ''message'') ''role'',
               lit (VStr '', Content: ''), attr (name ''message'') ''content'']),
     expr (call (attr (attr (name ''project_client'') ''agents'') ''delete_agent'') [
       ([], attr (name ''agent'') ''id'')]),
     print [lit (VStr ''Deleted agent'')]]"

text \<open>Lines 96-128, the region \<open>create_filesearch_agent\<close>.\<close>

definition create_filesearch_agent :: "unit exec" where
  "create_filesearch_agent = block [
     assign ''file'' (call (attr (attr (attr (name ''project'') ''agents'') ''files'') ''upload'') [
       (''file_path'', lit (VStr ''product_info_1.md'')),
       (''purpose'', lit (VStr ''agents''))]),
     assign ''vector_store''
       (call (attr (attr (attr (name ''project'') ''agents'') ''vector_stores'') ''create_and_poll'') [
         (''file_ids'', list_of [attr (name ''file'') ''id'']),
         (''name'', lit (VStr ''my_vectorstore''))]),
     assign ''file_search'' (call (name ''FileSearchTool'') [
       (''vector_store_ids'', list_of [attr (name ''vector_store'') ''id''])]),
     assign ''agent'' (call (attr (attr (name ''project'') ''agents'') ''create_agent'') [
       (''model'', lit (VStr ''gpt-4o'')),
       (''name'', lit (VStr ''my-assistant'')),
       (''instructions'',
          lit (VStr ''You are a helpful assistant and can search information from uploaded files'')),
       (''tools'', attr (name ''file_search'') ''definitions''),
       (''tool_resources'', attr (name ''file_search'') ''resources'')]),
     assign ''thread''
       (call (attr (attr (attr (name ''project'') ''agents'') ''threads'') ''create'') []),
     expr (call (attr (attr (attr (name ''project'') ''agents'') ''messages'') ''create'') [
       (''thread_id'', attr (name ''thread'') ''id''),
       (''role'', lit (VStr ''user'')),
       (''content'', lit (VStr ''Hello, what Contoso products do you know?''))]),
     assign ''run''
       (call (attr (attr (attr (name ''project'') ''agents'') ''runs'') ''create_and_process'') [
         (''thread_id'', attr (name ''thread'') ''id''),
         (''agent_id'', attr (name ''agent'') ''id'')]),
     if_then (eq (attr (name ''run'') ''status'') (lit (VStr ''failed'')))
       (print [lit (VStr ''Run failed: ''), attr (name ''run'') ''last_error'']),
     expr (call (attr (attr (attr (name ''project'') ''agents'') ''vector_stores'') ''delete'') [
       ([], attr (name ''vector_store'') ''id'')]),
     expr (call (attr (attr (attr (name ''project'') ''agents'') ''files'') ''delete'') [
       (''file_id'', attr (name ''file'') ''id'')]),
     expr (call (attr (attr (name ''project'') ''agents'') ''delete_agent'') [
       ([], attr (name ''agent'') ''id'')]),
     for_in ''message''
       (attr (call (attr (attr (attr (name ''project'') ''agents'') ''messages'') ''list'') [
          (''thread_id'', attr (name ''thread'') ''id'')]) ''text_messages'')
       (print [name ''message''])]"

text \<open>Lines 130-143, the region \<open>evaluate_agent_run\<close>.\<close>

definition evaluate_agent_run :: "unit exec" where
  "evaluate_agent_run = block [
     import_from ''azure.ai.projects'' ''EvaluatorIds'',
     assign ''result''
       (call (attr (attr (name ''project'') ''evaluation'') ''create_agent_evaluation'') [
         (''thread'', attr (name ''thread'') ''id''),
         (''run'', attr (name ''run'') ''id''),
         (''evaluators'', list_of [attr (name ''EvaluatorIds'') ''AGENT_QUALITY_EVALUATOR''])]),
     expr (call (attr (name ''result'') ''wait_for_completion'') []),
     print [call (attr (name ''result'') ''output'') []]]"

definition quickstart :: "unit exec" where
  "quickstart = block [
     load_env,
     chat_completion,
     create_and_run_agent,
     create_filesearch_agent,
     evaluate_agent_run]"

text \<open>
  \<open>python quickstart.py\<close> starts the module with none of the script's names bound; a
  test that executes the text of the script in a prepared namespace starts it with \<open>g\<close>.
\<close>

definition start :: "(string \<rightharpoonup> val) \<Rightarrow> state" where
  "start g = \<lparr>globals = g, trace = []\<rparr>"

definition run_script :: "world \<Rightarrow> (exn + unit) \<times> state" where
  "run_script w = quickstart w (start Map.empty)"

subsection \<open>Reading a run\<close>

fun is_value :: "exn + 'a \<Rightarrow> bool" where
  "is_value (Inr v) = True"
| "is_value (Inl e) = False"

fun value_of :: "exn + val \<Rightarrow> val" where
  "value_of (Inr v) = v"
| "value_of (Inl e) = VNone"

definition has_attr :: "world \<Rightarrow> val \<Rightarrow> string \<Rightarrow> bool" where
  "has_attr w v a = is_value (getattr w v a)"

definition field :: "world \<Rightarrow> val \<Rightarrow> string \<Rightarrow> val" where
  "field w v a = value_of (getattr w v a)"

definition has_item :: "val \<Rightarrow> val \<Rightarrow> bool" where
  "has_item v k = is_value (getitem v k)"

definition item :: "val \<Rightarrow> val \<Rightarrow> val" where
  "item v k = value_of (getitem v k)"

text \<open>The line the first loop prints for a message, and the one the status check prints.\<close>

definition role_line :: "world \<Rightarrow> val \<Rightarrow> event" where
  "role_line w m =
     Print [VStr ''Role: '', field w m ''role'', VStr '', Content: '', field w m ''content'']"

definition failure_line :: "world \<Rightarrow> val \<Rightarrow> event list" where
  "failure_line w run =
     (if field w run ''status'' = VStr ''failed''
      then [Print [VStr ''Run failed: '', field w run ''last_error'']] else [])"

fun is_diagnostic :: "event \<Rightarrow> bool" where
  "is_diagnostic (Print [p, v]) = (p = VStr ''Run failed: '')"
| "is_diagnostic ev = False"

text \<open>The namespace after a \<open>for\<close> loop has bound its variable to each item in turn.\<close>

definition rebound :: "string \<Rightarrow> val list \<Rightarrow> (string \<rightharpoonup> val) \<Rightarrow> (string \<rightharpoonup> val)" where
  "rebound x vs g = fold (\<lambda>v g. g(x \<mapsto> v)) vs g"

subsection \<open>Worlds in which a section runs to its end\<close>

text \<open>
  Each predicate says that the world answers the operations of one section, the first of
  them being operation \<open>n\<close>, with values that have the attributes the section reads.
\<close>

definition env_loaded :: "world \<Rightarrow> nat \<Rightarrow> string \<Rightarrow> bool" where
  "env_loaded w n f \<longleftrightarrow> reply w n = Inr (Handle f) \<and> is_value (reply w (n + 1))"

definition chat_world ::
  "world \<Rightarrow> nat \<Rightarrow> string \<Rightarrow> string \<Rightarrow> string \<Rightarrow> val \<Rightarrow> string \<Rightarrow> string \<Rightarrow> val \<Rightarrow> bool" where
  "chat_world w n cls cred_cls tool_cls cred pc oa response \<longleftrightarrow>
     reply w n = Inr (Handle cls) \<and>
     reply w (n + 1) = Inr (Handle cred_cls) \<and>
     reply w (n + 2) = Inr (Handle tool_cls) \<and>
     reply w (n + 3) = Inr cred \<and>
     reply w (n + 4) = Inr (Handle pc) \<and>
     reply w (n + 5) = Inr (Handle oa) \<and>
     reply w (n + 6) = Inr response \<and>
     has_attr w response ''choices'' \<and>
     has_item (field w response ''choices'') (VInt 0) \<and>
     has_attr w (item (field w response ''choices'') (VInt 0)) ''message'' \<and>
     has_attr w (field w (item (field w response ''choices'') (VInt 0)) ''message'') ''content''"

definition lifecycle_world :: "world \<Rightarrow> nat \<Rightarrow> val \<Rightarrow> val \<Rightarrow> val \<Rightarrow> val \<Rightarrow> val list \<Rightarrow> bool" where
  "lifecycle_world w n agent thread message run ms \<longleftrightarrow>
     reply w n = Inr agent \<and> has_attr w agent ''id'' \<and>
     reply w (n + 1) = Inr thread \<and> has_attr w thread ''id'' \<and>
     reply w (n + 2) = Inr message \<and> has_item message (VStr ''id'') \<and>
     reply w (n + 3) = Inr run \<and> has_attr w run ''status'' \<and>
     (field w run ''status'' = VStr ''failed'' \<longrightarrow> has_attr w run ''last_error'') \<and>
     reply w (n + 4) = Inr (VList ms) \<and>
     (\<forall>m\<in>set ms. has_attr w m ''role'' \<and> has_attr w m ''content'') \<and>
     is_value (reply w (n + 5))"

definition filesearch_world ::
  "world \<Rightarrow> nat \<Rightarrow> val \<Rightarrow> val \<Rightarrow> val \<Rightarrow> val \<Rightarrow> val \<Rightarrow> val \<Rightarrow> val \<Rightarrow> val list \<Rightarrow> bool" where
  "filesearch_world w n file vstore tool agent thread run listing ms \<longleftrightarrow>
     reply w n = Inr file \<and> has_attr w file ''id'' \<and>
     reply w (n + 1) = Inr vstore \<and> has_attr w vstore ''id'' \<and>
     reply w (n + 2) = Inr tool \<and> has_attr w tool ''definitions'' \<and> has_attr w tool ''resources'' \<and>
     reply w (n + 3) = Inr agent \<and> has_attr w agent ''id'' \<and>
     reply w (n + 4) = Inr thread \<and> has_attr w thread ''id'' \<and>
     is_value (reply w (n + 5)) \<and>
     reply w (n + 6) = Inr run \<and> has_attr w run ''status'' \<and>
     (field w run ''status'' = VStr ''failed'' \<longrightarrow> has_attr w run ''last_error'') \<and>
     is_value (reply w (n + 7)) \<and>
     is_value (reply w (n + 8)) \<and>
     is_value (reply w (n + 9)) \<and>
     reply w (n + 10) = Inr listing \<and> getattr w listing ''text_messages'' = Inr (VList ms)"

definition evaluation_world :: "world \<Rightarrow> nat \<Rightarrow> val \<Rightarrow> string \<Rightarrow> val \<Rightarrow> bool" where
  "evaluation_world w n ids result out \<longleftrightarrow>
     reply w n = Inr ids \<and> has_attr w ids ''AGENT_QUALITY_EVALUATOR'' \<and>
     reply w (n + 1) = Inr (Handle result) \<and>
     is_value (reply w (n + 2)) \<and>
     reply w (n + 3) = Inr out"

subsection \<open>Properties of a computation\<close>

text \<open>\<open>keeps x m\<close>: running \<open>m\<close> never binds the name \<open>x\<close>.\<close>

definition keeps :: "string \<Rightarrow> 'a exec \<Rightarrow> bool" where
  "keeps x m \<longleftrightarrow> (\<forall>w s. globals s x = None \<longrightarrow> globals (snd (m w s)) x = None)"




text \<open>
  \<open>agree K n w1 w2\<close>: the two worlds give the environment variables in \<open>K\<close> the same
  values and the first \<open>n\<close> operations the same outcomes. \<open>reads_only K m\<close>: a run of \<open>m\<close>
  is the same in any two worlds that agree on \<open>K\<close> and on the operations the run issued.
\<close>

definition agree :: "string set \<Rightarrow> nat \<Rightarrow> world \<Rightarrow> world \<Rightarrow> bool" where
  "agree K n w1 w2 \<longleftrightarrow>
     (\<forall>k\<in>K. map_of (environ w1) k = map_of (environ w2) k) \<and>
     (\<forall>i<n. reply w1 i = reply w2 i)"

definition reads_only :: "string set \<Rightarrow> 'a exec \<Rightarrow> bool" where
  "reads_only K m \<longleftrightarrow>
     (\<forall>w s. issued s \<le> issued (snd (m w s))) \<and>
     (\<forall>w1 w2 s. agree K (issued (snd (m w1 s))) w1 w2 \<longrightarrow> m w2 s = m w1 s)"

subsection \<open>Sample worlds\<close>

text \<open>
  Worlds given by the list of their replies, in the order the operations are issued; an
  operation beyond the list raises. The sample replies are what a test double of the SDK
  returns: handles for classes and clients, objects with the fields the script reads.
\<close>

definition reply_from :: "(exn + val) list \<Rightarrow> nat \<Rightarrow> exn + val" where
  "reply_from rs k = (if k < length rs then rs ! k else Inl (Raised ''no reply''))"

definition sample_environ :: "(string \<times> string) list" where
  "sample_environ =
     [(''PROJECT_ENDPOINT'', ''https://contoso.example/api/projects/demo''),
      (''MODEL_DEPLOYMENT_NAME'', ''gpt-4o-mini'')]"

definition sample_run :: "string \<Rightarrow> string \<Rightarrow> val" where
  "sample_run i st =
     VObj [(''id'', VStr i), (''status'', VStr st), (''last_error'', VStr ''rate limit exceeded'')]"

definition sample_messages :: "val list" where
  "sample_messages =
     [VObj [(''role'', VStr ''user''), (''content'', VStr ''Write me a poem about flowers'')],
      VObj [(''role'', VStr ''assistant''), (''content'', VStr ''Roses are red'')]]"

definition sample_response :: val where
  "sample_response =
     VObj [(''choices'', VList [VObj [(''message'', VObj [(''content'', VStr ''Roses are red'')])]])]"

definition sample_tool :: val where
  "sample_tool =
     VObj [(''definitions'', VList [VObj [(''type'', VStr ''file_search'')]]),
           (''resources'', VObj [(''file_search'', VObj [(''vector_store_ids'', VList [VStr ''vs_1''])])])]"

definition env_replies :: "(exn + val) list" where
  "env_replies = [Inr (Handle ''load_dotenv''), Inr (VBool True)]"

definition chat_replies :: "(exn + val) list" where
  "chat_replies =
     [Inr (Handle ''AIProjectClient''),
      Inr (Handle ''DefaultAzureCredential''),
      Inr (Handle ''FileSearchTool''),
      Inr (Handle ''credential''),
      Inr (Handle ''client''),
      Inr (Handle ''openai''),
      Inr sample_response]"

definition lifecycle_replies :: "string \<Rightarrow> (exn + val) list" where
  "lifecycle_replies st =
     [Inr (VObj [(''id'', VStr ''asst_1'')]),
      Inr (VObj [(''id'', VStr ''thread_1'')]),
      Inr (VObj [(''id'', VStr ''msg_1'')]),
      Inr (sample_run ''run_1'' st),
      Inr (VList sample_messages),
      Inr VNone]"

definition filesearch_replies :: "string \<Rightarrow> (exn + val) list" where
  "filesearch_replies st =
     [Inr (VObj [(''id'', VStr ''file_1'')]),
      Inr (VObj [(''id'', VStr ''vs_1'')]),
      Inr sample_tool,
      Inr (VObj [(''id'', VStr ''asst_2'')]),
      Inr (VObj [(''id'', VStr ''thread_2'')]),
      Inr (VObj [(''id'', VStr ''msg_2'')]),
      Inr (sample_run ''run_2'' st),
      Inr VNone,
      Inr VNone,
      Inr VNone,
      Inr (VObj [(''text_messages'', VList [VStr ''Contoso sells tents''])])]"

definition evaluation_replies :: "(exn + val) list" where
  "evaluation_replies =
     [Inr (Handle ''EvaluatorIds''),
      Inr (Handle ''evaluation''),
      Inr VNone,
      Inr (VStr ''quality: 5'')]"

definition scripted :: "(exn + val) list \<Rightarrow> world" where
  "scripted rs = \<lparr>environ = sample_environ, reply = reply_from rs\<rparr>"

definition sample_world :: "string \<Rightarrow> string \<Rightarrow> world" where
  "sample_world st1 st2 =
     scripted (env_replies @ chat_replies @ lifecycle_replies st1 @ filesearch_replies st2 @
       evaluation_replies)"

text \<open>The world of a machine on which the package \<open>dotenv\<close> is not installed.\<close>

definition no_dotenv_world :: world where
  "no_dotenv_world = scripted [Inl (Raised ''ModuleNotFoundError'')]"

text \<open>A world in which the service rejects the creation of the first thread.\<close>

definition thread_error_world :: world where
  "thread_error_world =
     scripted (env_replies @ chat_replies @
       [Inr (VObj [(''id'', VStr ''asst_1'')]), Inl (Raised ''HttpResponseError'')])"

text \<open>A world in which \<open>PROJECT_ENDPOINT\<close> is not set.\<close>

definition no_endpoint_world :: world where
  "no_endpoint_world =
     \<lparr>environ = [(''MODEL_DEPLOYMENT_NAME'', ''gpt-4o-mini'')],
      reply = reply_from (env_replies @ chat_replies)\<rparr>"

text \<open>
  A namespace in which the two names the script uses without binding them are bound
  beforehand, as a test that executes the text of the script can do.
\<close>

definition prepared :: "string \<rightharpoonup> val" where
  "prepared = [''os'' \<mapsto> OsModule, ''project'' \<mapsto> Handle ''project'']"

section \<open>Running the sections\<close>

subsection \<open>Evaluation rules\<close>


lemma run_simps:
  "lit v w s = (Inr v, s)"
  "attr e a w s = bind e (\<lambda>v. read_attr v a) w s"
  "subscr e k w s = bind e (\<lambda>v. bind k (\<lambda>i. lift (getitem v i))) w s"
  "list_of es w s = bind (evals es) (\<lambda>vs. ret (VList vs)) w s"
  "call f as w s = bind f (\<lambda>fv. bind (eval_args as) (\<lambda>vs. apply_val fv vs)) w s"
  "eq c d w s = bind c (\<lambda>x. bind d (\<lambda>y. ret (VBool (x = y)))) w s"
  "assign n e w s = bind e (store n) w s"
  "expr e w s = bind e (\<lambda>v. ret ()) w s"
  "import_from m n w s = assign n (external (Import m n)) w s"
  "print es w s = bind (evals es) (\<lambda>vs. emit (Print vs)) w s"
  "if_then c body w s = bind c (\<lambda>v. if truthy v then body else ret ()) w s"
  "for_in x e body w s = bind e (\<lambda>v. bind (lift (iter v)) (\<lambda>items. for_items x items body)) w s"
  "os_environ key w s = subscr (attr (name ''os'') ''environ'') (lit (VStr key)) w s"
  by (simp_all add: lit_def attr_def subscr_def list_of_def call_def eq_def assign_def expr_def
      import_from_def print_def if_then_def for_in_def os_environ_def ret_def)

lemmas sample_defs = reply_from_def sample_environ_def sample_run_def sample_messages_def
  sample_response_def sample_tool_def env_replies_def chat_replies_def lifecycle_replies_def
  filesearch_replies_def evaluation_replies_def scripted_def sample_world_def prepared_def
  no_dotenv_world_def thread_error_world_def no_endpoint_world_def

lemmas run_defs = ret_def raise_def bind_def lift_def external_def name_def store_def emit_def
  read_attr_def

lemma is_valueE: "is_value r \<Longrightarrow> (\<And>v. r = Inr v \<Longrightarrow> P) \<Longrightarrow> P"
  by (cases r) simp_all

lemma has_attr_field: "has_attr w v a \<Longrightarrow> getattr w v a = Inr (field w v a)"
  unfolding has_attr_def field_def by (cases "getattr w v a") simp_all

lemma has_item_item: "has_item v k \<Longrightarrow> getitem v k = Inr (item v k)"
  unfolding has_item_def item_def by (cases "getitem v k") simp_all

lemma for_items_prints_rec:
  assumes "\<And>m g tr. m \<in> set ms \<Longrightarrow> g x = Some m \<Longrightarrow>
             body w \<lparr>globals = g, trace = tr\<rparr> = (Inr (), \<lparr>globals = g, trace = tr @ [line m]\<rparr>)"
  shows "for_items x ms body w \<lparr>globals = g, trace = tr\<rparr> =
     (Inr (), \<lparr>globals = rebound x ms g, trace = tr @ map line ms\<rparr>)"
  using assms
proof (induction ms arbitrary: g tr)
  case Nil
  then show ?case by (simp add: ret_def rebound_def)
next
  case (Cons m ms)
  have step: "body w \<lparr>globals = g(x \<mapsto> m), trace = tr\<rparr> =
      (Inr (), \<lparr>globals = g(x \<mapsto> m), trace = tr @ [line m]\<rparr>)"
    by (rule Cons.prems) simp_all
  have rest: "for_items x ms body w \<lparr>globals = g(x \<mapsto> m), trace = tr @ [line m]\<rparr> =
      (Inr (), \<lparr>globals = rebound x ms (g(x \<mapsto> m)), trace = (tr @ [line m]) @ map line ms\<rparr>)"
    by (rule Cons.IH) (simp add: Cons.prems)
  show ?case
    by (simp add: bind_def assign_def lit_def ret_def store_def step rest rebound_def)
qed

lemma for_items_prints:
  assumes "\<And>m s. m \<in> set ms \<Longrightarrow> globals s x = Some m \<Longrightarrow>
             body w s = (Inr (), s\<lparr>trace := trace s @ [line m]\<rparr>)"
  shows "for_items x ms body w s =
     (Inr (), s\<lparr>globals := rebound x ms (globals s), trace := trace s @ map line ms\<rparr>)"
proof (cases s)
  case (fields g tr)
  have "for_items x ms body w \<lparr>globals = g, trace = tr\<rparr> =
     (Inr (), \<lparr>globals = rebound x ms g, trace = tr @ map line ms\<rparr>)"
  proof (rule for_items_prints_rec)
    fix m g' tr'
    assume "m \<in> set ms" "g' x = Some m"
    then show "body w \<lparr>globals = g', trace = tr'\<rparr> = (Inr (), \<lparr>globals = g', trace = tr' @ [line m]\<rparr>)"
      using assms [of m "\<lparr>globals = g', trace = tr'\<rparr>"] by simp
  qed
  then show ?thesis by (simp add: fields)
qed

lemma rebound_other: "y \<noteq> x \<Longrightarrow> rebound x vs g y = g y"
  unfolding rebound_def by (induction vs arbitrary: g) simp_all

lemma filter_op_role_lines [simp]: "filter is_op (map (role_line w) ms) = []"
  by (induction ms) (simp_all add: role_line_def)

lemma filter_op_prints [simp]: "filter is_op (map (\<lambda>m. Print [m]) ms) = []"
  by (induction ms) simp_all

lemma filter_op_failure_line [simp]: "filter is_op (failure_line w r) = []"
  by (simp add: failure_line_def)

lemma filter_call_role_lines [simp]: "filter is_call (map (role_line w) ms) = []"
  by (induction ms) (simp_all add: role_line_def)

lemma filter_call_prints [simp]: "filter is_call (map (\<lambda>m. Print [m]) ms) = []"
  by (induction ms) simp_all

lemma filter_call_failure_line [simp]: "filter is_call (failure_line w r) = []"
  by (simp add: failure_line_def)

lemma filter_diagnostic_role_lines [simp]: "filter is_diagnostic (map (role_line w) ms) = []"
  by (induction ms) (simp_all add: role_line_def)

lemma filter_diagnostic_prints [simp]: "filter is_diagnostic (map (\<lambda>m. Print [m]) ms) = []"
  by (induction ms) simp_all

lemma filter_diagnostic_failure_line [simp]:
  "filter is_diagnostic (failure_line w r) = failure_line w r"
  by (simp add: failure_line_def)

lemma for_role_lines:
  assumes "\<forall>m\<in>set ms. has_attr w m ''role'' \<and> has_attr w m ''content''"
  shows "for_items ''message'' ms
       (print [lit (VStr ''Role: ''), attr (name ''message'') ''role'',
               lit (VStr '', Content: ''), attr (name ''message'') ''content'']) w s
     = (Inr (), s\<lparr>globals := rebound ''message'' ms (globals s),
                  trace := trace s @ map (role_line w) ms\<rparr>)"
proof (rule for_items_prints)
  fix m and s' :: state
  assume "m \<in> set ms" and "globals s' ''message'' = Some m"
  then show "print [lit (VStr ''Role: ''), attr (name ''message'') ''role'',
               lit (VStr '', Content: ''), attr (name ''message'') ''content''] w s'
       = (Inr (), s'\<lparr>trace := trace s' @ [role_line w m]\<rparr>)"
    using assms by (simp add: run_simps run_defs role_line_def has_attr_field)
qed

lemma for_message_lines:
  "for_items ''message'' ms (print [name ''message'']) w s
     = (Inr (), s\<lparr>globals := rebound ''message'' ms (globals s),
                  trace := trace s @ map (\<lambda>m. Print [m]) ms\<rparr>)"
  by (rule for_items_prints) (simp add: run_simps run_defs)

lemma load_env_run:
  assumes "env_loaded w (issued s) f"
  shows "load_env w s = (Inr (), s\<lparr>
     globals := (globals s)(''load_dotenv'' \<mapsto> Handle f),
     trace := trace s @ [Import ''dotenv'' ''load_dotenv'', Call f []]\<rparr>)"
proof -
  from assms obtain v where "reply w (issued s) = Inr (Handle f)" "reply w (Suc (issued s)) = Inr v"
    unfolding env_loaded_def by (auto elim: is_valueE)
  then show ?thesis
    by (simp add: load_env_def run_simps run_defs issued_def)
qed

lemma create_and_run_agent_run:
  assumes pc: "globals s ''project_client'' = Some (Handle pc)"
    and os: "globals s ''os'' = Some OsModule"
    and env: "map_of (environ w) ''MODEL_DEPLOYMENT_NAME'' = Some model"
    and world: "lifecycle_world w (issued s) agent thread message run ms"
  shows "create_and_run_agent w s = (Inr (), s\<lparr>
     globals := rebound ''message'' ms ((globals s)(''agent'' \<mapsto> agent, ''thread'' \<mapsto> thread,
        ''message'' \<mapsto> message, ''run'' \<mapsto> run, ''messages'' \<mapsto> VList ms)),
     trace := trace s @
       [Call (pc @ ''.agents.create_agent'') [(''model'', VStr model), (''name'', VStr ''my-agent''),
           (''instructions'', VStr ''You are a helpful writing assistant'')],
        Print [VStr ''Created agent, ID: '', field w agent ''id''],
        Call (pc @ ''.agents.threads.create'') [],
        Print [VStr ''Created thread, ID: '', field w thread ''id''],
        Call (pc @ ''.agents.messages.create'') [(''thread_id'', field w thread ''id''),
           (''role'', VStr ''user''), (''content'', VStr ''Write me a poem about flowers'')],
        Print [VStr ''Created message, ID: '', item message (VStr ''id'')],
        Call (pc @ ''.agents.runs.create_and_process'')
           [(''thread_id'', field w thread ''id''), (''agent_id'', field w agent ''id'')],
        Print [VStr ''Run finished with status: '', field w run ''status'']] @
       failure_line w run @
       [Call (pc @ ''.agents.messages.list'') [(''thread_id'', field w thread ''id'')]] @
       map (role_line w) ms @
       [Call (pc @ ''.agents.delete_agent'') [([], field w agent ''id'')],
        Print [VStr ''Deleted agent'']]\<rparr>)"
proof -
  from world obtain d where
      r: "reply w (issued s) = Inr agent" "reply w (Suc (issued s)) = Inr thread"
         "reply w (Suc (Suc (issued s))) = Inr message"
         "reply w (Suc (Suc (Suc (issued s)))) = Inr run"
         "reply w (Suc (Suc (Suc (Suc (issued s))))) = Inr (VList ms)"
         "reply w (Suc (Suc (Suc (Suc (Suc (issued s)))))) = Inr d"
    and a: "has_attr w agent ''id''" "has_attr w thread ''id''" "has_item message (VStr ''id'')"
         "has_attr w run ''status''"
         "field w run ''status'' = VStr ''failed'' \<longrightarrow> has_attr w run ''last_error''"
    and m: "\<forall>m\<in>set ms. has_attr w m ''role'' \<and> has_attr w m ''content''"
    unfolding lifecycle_world_def by (auto elim: is_valueE simp: eval_nat_numeral)
  show ?thesis
    using pc os env r a
    by (simp add: create_and_run_agent_def run_simps run_defs for_role_lines [OF m] issued_def
        map_of_map comp_def rebound_other has_attr_field has_item_item failure_line_def)
qed

lemma chat_completion_run:
  assumes os: "globals s ''os'' = Some OsModule"
    and env: "map_of (environ w) ''PROJECT_ENDPOINT'' = Some endpoint"
             "map_of (environ w) ''MODEL_DEPLOYMENT_NAME'' = Some model"
    and world: "chat_world w (issued s) cls cred_cls tool_cls cred pc oa response"
  shows "chat_completion w s = (Inr (), s\<lparr>
     globals := (globals s)(''AIProjectClient'' \<mapsto> Handle cls,
        ''DefaultAzureCredential'' \<mapsto> Handle cred_cls, ''FileSearchTool'' \<mapsto> Handle tool_cls,
        ''project_client'' \<mapsto> Handle pc, ''openai'' \<mapsto> Handle oa, ''response'' \<mapsto> response),
     trace := trace s @
       [Import ''azure.ai.projects.onedp'' ''AIProjectClient'',
        Import ''azure.identity'' ''DefaultAzureCredential'',
        Import ''azure.ai.projects'' ''FileSearchTool'',
        Call cred_cls [],
        Call cls [(''endpoint'', VStr endpoint), (''credential'', cred)],
        Call (pc @ ''.get_openai_client'') [(''api_version'', VStr ''2024-06-01'')],
        Call (oa @ ''.chat.completions.create'') [(''model'', VStr model),
          (''messages'', VList [
             VObj [(''role'', VStr ''system''), (''content'', VStr ''You are a helpful writing assistant'')],
             VObj [(''role'', VStr ''user''), (''content'', VStr ''Write me a poem about flowers'')]])],
        Print [field w (field w (item (field w response ''choices'') (VInt 0)) ''message'') ''content'']]\<rparr>)"
proof -
  from world have
      r: "reply w (issued s) = Inr (Handle cls)" "reply w (Suc (issued s)) = Inr (Handle cred_cls)"
         "reply w (Suc (Suc (issued s))) = Inr (Handle tool_cls)"
         "reply w (Suc (Suc (Suc (issued s)))) = Inr cred"
         "reply w (Suc (Suc (Suc (Suc (issued s))))) = Inr (Handle pc)"
         "reply w (Suc (Suc (Suc (Suc (Suc (issued s)))))) = Inr (Handle oa)"
         "reply w (Suc (Suc (Suc (Suc (Suc (Suc (issued s))))))) = Inr response"
    and a: "has_attr w response ''choices''"
         "has_item (field w response ''choices'') (VInt 0)"
         "has_attr w (item (field w response ''choices'') (VInt 0)) ''message''"
         "has_attr w (field w (item (field w response ''choices'') (VInt 0)) ''message'') ''content''"
    unfolding chat_world_def by (simp_all add: eval_nat_numeral)
  show ?thesis
    using os env r a
    by (simp add: chat_completion_def run_simps run_defs issued_def
        map_of_map comp_def has_attr_field has_item_item)
qed

lemma create_filesearch_agent_run:
  assumes p: "globals s ''project'' = Some (Handle p)"
    and t: "globals s ''FileSearchTool'' = Some (Handle tool_cls)"
    and world: "filesearch_world w (issued s) file vstore tool agent thread run listing ms"
  shows "create_filesearch_agent w s = (Inr (), s\<lparr>
     globals := rebound ''message'' ms ((globals s)(''file'' \<mapsto> file, ''vector_store'' \<mapsto> vstore,
        ''file_search'' \<mapsto> tool, ''agent'' \<mapsto> agent, ''thread'' \<mapsto> thread, ''run'' \<mapsto> run)),
     trace := trace s @
       [Call (p @ ''.agents.files.upload'')
          [(''file_path'', VStr ''product_info_1.md''), (''purpose'', VStr ''agents'')],
        Call (p @ ''.agents.vector_stores.create_and_poll'')
          [(''file_ids'', VList [field w file ''id'']), (''name'', VStr ''my_vectorstore'')],
        Call tool_cls [(''vector_store_ids'', VList [field w vstore ''id''])],
        Call (p @ ''.agents.create_agent'') [(''model'', VStr ''gpt-4o''), (''name'', VStr ''my-assistant''),
          (''instructions'',
             VStr ''You are a helpful assistant and can search information from uploaded files''),
          (''tools'', field w tool ''definitions''),
          (''tool_resources'', field w tool ''resources'')],
        Call (p @ ''.agents.threads.create'') [],
        Call (p @ ''.agents.messages.create'') [(''thread_id'', field w thread ''id''),
          (''role'', VStr ''user''), (''content'', VStr ''Hello, what Contoso products do you know?'')],
        Call (p @ ''.agents.runs.create_and_process'')
          [(''thread_id'', field w thread ''id''), (''agent_id'', field w agent ''id'')]] @
       failure_line w run @
       [Call (p @ ''.agents.vector_stores.delete'') [([], field w vstore ''id'')],
        Call (p @ ''.agents.files.delete'') [(''file_id'', field w file ''id'')],
        Call (p @ ''.agents.delete_agent'') [([], field w agent ''id'')],
        Call (p @ ''.agents.messages.list'') [(''thread_id'', field w thread ''id'')]] @
       map (\<lambda>m. Print [m]) ms\<rparr>)"
proof -
  from world obtain c d1 d2 d3 where
      r: "reply w (issued s) = Inr file" "reply w (Suc (issued s)) = Inr vstore"
         "reply w (Suc (Suc (issued s))) = Inr tool"
         "reply w (Suc (Suc (Suc (issued s)))) = Inr agent"
         "reply w (Suc (Suc (Suc (Suc (issued s))))) = Inr thread"
         "reply w (Suc (Suc (Suc (Suc (Suc (issued s)))))) = Inr c"
         "reply w (Suc (Suc (Suc (Suc (Suc (Suc (issued s))))))) = Inr run"
         "reply w (Suc (Suc (Suc (Suc (Suc (Suc (Suc (issued s)))))))) = Inr d1"
         "reply w (Suc (Suc (Suc (Suc (Suc (Suc (Suc (Suc (issued s))))))))) = Inr d2"
         "reply w (Suc (Suc (Suc (Suc (Suc (Suc (Suc (Suc (Suc (issued s)))))))))) = Inr d3"
         "reply w (Suc (Suc (Suc (Suc (Suc (Suc (Suc (Suc (Suc (Suc (issued s))))))))))) = Inr listing"
    and a: "has_attr w file ''id''" "has_attr w vstore ''id''" "has_attr w tool ''definitions''"
         "has_attr w tool ''resources''" "has_attr w agent ''id''" "has_attr w thread ''id''"
         "has_attr w run ''status''"
         "field w run ''status'' = VStr ''failed'' \<longrightarrow> has_attr w run ''last_error''"
         "getattr w listing ''text_messages'' = Inr (VList ms)"
    unfolding filesearch_world_def by (auto elim!: is_valueE simp: eval_nat_numeral)
  show ?thesis
    using p t r a
    by (simp add: create_filesearch_agent_def run_simps run_defs for_message_lines issued_def
        rebound_other has_attr_field failure_line_def)
qed

lemma evaluate_agent_run_run:
  assumes p: "globals s ''project'' = Some (Handle p)"
    and t: "globals s ''thread'' = Some thread" "has_attr w thread ''id''"
    and r: "globals s ''run'' = Some run" "has_attr w run ''id''"
    and world: "evaluation_world w (issued s) ids result out"
  shows "evaluate_agent_run w s = (Inr (), s\<lparr>
     globals := (globals s)(''EvaluatorIds'' \<mapsto> ids, ''result'' \<mapsto> Handle result),
     trace := trace s @
       [Import ''azure.ai.projects'' ''EvaluatorIds'',
        Call (p @ ''.evaluation.create_agent_evaluation'')
          [(''thread'', field w thread ''id''), (''run'', field w run ''id''),
           (''evaluators'', VList [field w ids ''AGENT_QUALITY_EVALUATOR''])],
        Call (result @ ''.wait_for_completion'') [],
        Call (result @ ''.output'') [],
        Print [out]]\<rparr>)"
proof -
  from world obtain d where
      rs: "reply w (issued s) = Inr ids" "reply w (Suc (issued s)) = Inr (Handle result)"
         "reply w (Suc (Suc (issued s))) = Inr d"
         "reply w (Suc (Suc (Suc (issued s)))) = Inr out"
    and a: "has_attr w ids ''AGENT_QUALITY_EVALUATOR''"
    unfolding evaluation_world_def by (auto elim!: is_valueE simp: eval_nat_numeral)
  show ?thesis
    using p t r rs a
    by (simp add: evaluate_agent_run_def run_simps run_defs issued_def has_attr_field)
qed


subsection \<open>Names a computation never binds\<close>

lemma keeps_bind:
  assumes m: "keeps x m" and f: "\<And>v. keeps x (f v)"
  shows "keeps x (bind m f)"
  unfolding keeps_def
proof (intro allI impI)
  fix w and s :: state
  assume s: "globals s x = None"
  obtain r s' where ms: "m w s = (r, s')" by (cases "m w s")
  have s': "globals s' x = None"
    using m s ms unfolding keeps_def by (metis snd_conv)
  show "globals (snd (bind m f w s)) x = None"
  proof (cases r)
    case (Inl e)
    then show ?thesis using ms s' by (simp add: bind_def)
  next
    case (Inr v)
    have "globals (snd (f v w s')) x = None"
      using f [of v] s' unfolding keeps_def by blast
    then show ?thesis using ms Inr by (simp add: bind_def)
  qed
qed

lemma keeps_prims:
  "keeps x (ret v)" "keeps x (raise e)" "keeps x (lift r)" "keeps x (external ev)"
  "keeps x (name n)" "keeps x (emit ev)" "keeps x (read_attr u a)" "keeps x (lit u)"
  by (simp_all add: keeps_def run_defs lit_def split: option.splits)

lemma keeps_store: "n \<noteq> x \<Longrightarrow> keeps x (store n v)"
  by (simp add: keeps_def store_def)

lemma keeps_apply_val: "keeps x (apply_val fv vs)"
  by (cases fv) (simp_all add: keeps_prims)

lemma keeps_evals_Nil: "keeps x (evals [])"
  by (simp add: keeps_prims)

lemma keeps_evals_Cons: "keeps x e \<Longrightarrow> keeps x (evals es) \<Longrightarrow> keeps x (evals (e # es))"
  by (simp add: keeps_bind keeps_prims)

lemma keeps_args_Nil: "keeps x (eval_args [])"
  by (simp add: keeps_prims)

lemma keeps_args_Cons: "keeps x e \<Longrightarrow> keeps x (eval_args as) \<Longrightarrow> keeps x (eval_args ((k, e) # as))"
  by (simp add: keeps_bind keeps_prims)

lemma keeps_for_items: "y \<noteq> x \<Longrightarrow> keeps x body \<Longrightarrow> keeps x (for_items y vs body)"
  by (induction vs) (simp_all add: keeps_bind keeps_prims keeps_store assign_def)

lemma keeps_block_Nil: "keeps x (block [])"
  by (simp add: keeps_prims)

lemma keeps_block_Cons: "keeps x c \<Longrightarrow> keeps x (block cs) \<Longrightarrow> keeps x (block (c # cs))"
  by (simp add: keeps_bind)

lemma keeps_derived:
  "keeps x e \<Longrightarrow> keeps x (attr e a)"
  "keeps x e \<Longrightarrow> keeps x k \<Longrightarrow> keeps x (subscr e k)"
  "keeps x (evals es) \<Longrightarrow> keeps x (list_of es)"
  "keeps x f \<Longrightarrow> keeps x (eval_args as) \<Longrightarrow> keeps x (call f as)"
  "keeps x c \<Longrightarrow> keeps x d \<Longrightarrow> keeps x (eq c d)"
  "n \<noteq> x \<Longrightarrow> keeps x e \<Longrightarrow> keeps x (assign n e)"
  "keeps x e \<Longrightarrow> keeps x (expr e)"
  "n \<noteq> x \<Longrightarrow> keeps x (import_from m n)"
  "keeps x (evals es) \<Longrightarrow> keeps x (print es)"
  "keeps x c \<Longrightarrow> keeps x body \<Longrightarrow> keeps x (if_then c body)"
  "y \<noteq> x \<Longrightarrow> keeps x e \<Longrightarrow> keeps x body \<Longrightarrow> keeps x (for_in y e body)"
  "keeps x (os_environ key)"
  by (simp_all add: attr_def subscr_def list_of_def call_def eq_def assign_def expr_def
      import_from_def print_def if_then_def for_in_def os_environ_def lit_def
      keeps_bind keeps_prims keeps_store keeps_apply_val keeps_for_items)

lemmas keeps_intros = keeps_prims keeps_derived keeps_evals_Nil keeps_evals_Cons keeps_args_Nil
  keeps_args_Cons keeps_block_Nil keeps_block_Cons

lemma keeps_project_load_env: "keeps ''project'' load_env"
  unfolding load_env_def by (intro keeps_intros; simp)

lemma keeps_project_chat: "keeps ''project'' chat_completion"
  unfolding chat_completion_def by (intro keeps_intros; simp)

lemma keeps_project_lifecycle: "keeps ''project'' create_and_run_agent"
  unfolding create_and_run_agent_def by (intro keeps_intros; simp)

lemma keeps_os_load_env: "keeps ''os'' load_env"
  unfolding load_env_def by (intro keeps_intros; simp)



subsection \<open>Exceptions of operations end the run\<close>
















subsection \<open>What a run depends on\<close>

lemma agree_mono: "agree K n w1 w2 \<Longrightarrow> n' \<le> n \<Longrightarrow> agree K n' w1 w2"
  by (simp add: agree_def)

lemma reads_only_quiet:
  assumes "\<And>w1 w2 s. m w2 s = m w1 s" and "\<And>w s. issued (snd (m w s)) = issued s"
  shows "reads_only K m"
  unfolding reads_only_def using assms by simp

lemma reads_only_prims:
  "reads_only K (ret v)" "reads_only K (raise e)" "reads_only K (lift r)" "reads_only K (name n)"
  "reads_only K (store n u)" "reads_only K (emit (Print us))" "reads_only K (lit u)"
  by (rule reads_only_quiet; simp add: run_defs lit_def issued_def split: option.splits)+

lemma reads_only_read_attr: "a \<noteq> ''environ'' \<Longrightarrow> reads_only K (read_attr u a)"
  by (rule reads_only_quiet; cases u; simp add: read_attr_def)

lemma reads_only_external:
  assumes "is_op ev"
  shows "reads_only K (external ev)"
  unfolding reads_only_def using assms
  by (simp add: external_def issued_def agree_def)

lemma reads_only_bind:
  assumes m: "reads_only K m" and f: "\<And>v. reads_only K (f v)"
  shows "reads_only K (bind m f)"
  unfolding reads_only_def
proof (intro conjI allI impI)
  fix w and s :: state
  obtain r s' where ms: "m w s = (r, s')" by (cases "m w s")
  have 1: "issued s \<le> issued s'" using m ms unfolding reads_only_def by (metis snd_conv)
  show "issued s \<le> issued (snd (bind m f w s))"
  proof (cases r)
    case (Inl e)
    then show ?thesis using ms 1 by (simp add: bind_def)
  next
    case (Inr v)
    have "issued s' \<le> issued (snd (f v w s'))" using f [of v] unfolding reads_only_def by blast
    then show ?thesis using ms 1 Inr by (simp add: bind_def)
  qed
next
  fix w1 w2 and s :: state
  assume a: "agree K (issued (snd (bind m f w1 s))) w1 w2"
  obtain r s' where ms: "m w1 s = (r, s')" by (cases "m w1 s")
  show "bind m f w2 s = bind m f w1 s"
  proof (cases r)
    case (Inl e)
    then have "agree K (issued (snd (m w1 s))) w1 w2" using a ms by (simp add: bind_def)
    then have "m w2 s = m w1 s" using m unfolding reads_only_def by blast
    then show ?thesis using ms Inl by (simp add: bind_def)
  next
    case (Inr v)
    have a': "agree K (issued (snd (f v w1 s'))) w1 w2" using a ms Inr by (simp add: bind_def)
    have "issued s' \<le> issued (snd (f v w1 s'))" using f [of v] unfolding reads_only_def by blast
    then have "agree K (issued (snd (m w1 s))) w1 w2" using a' ms agree_mono by simp
    then have 1: "m w2 s = m w1 s" using m unfolding reads_only_def by blast
    have 2: "f v w2 s' = f v w1 s'" using f [of v] a' unfolding reads_only_def by blast
    have ms2: "m w2 s = (Inr v, s')" using 1 ms Inr by simp
    show ?thesis using 2 by (simp add: bind_def ms2 ms Inr)
  qed
qed

lemma reads_only_os_environ:
  assumes "key \<in> K"
  shows "reads_only K (os_environ key)"
  unfolding reads_only_def
proof (intro conjI allI impI)
  fix w and s :: state
  show "issued s \<le> issued (snd (os_environ key w s))"
    by (simp add: os_environ_def subscr_def attr_def lit_def run_defs split: option.splits sum.splits)
next
  fix w1 w2 and s :: state
  assume "agree K (issued (snd (os_environ key w1 s))) w1 w2"
  then have e: "map_of (environ w1) key = map_of (environ w2) key"
    using assms by (simp add: agree_def)
  show "os_environ key w2 s = os_environ key w1 s"
  proof (cases "globals s ''os''")
    case None
    then show ?thesis by (simp add: os_environ_def subscr_def attr_def lit_def run_defs)
  next
    case (Some v)
    show ?thesis
      using Some e
      by (cases v)
        (simp_all add: os_environ_def subscr_def attr_def lit_def run_defs map_of_map comp_def
          split: option.splits sum.splits)
  qed
qed

lemma reads_only_apply_val: "reads_only K (apply_val fv vs)"
  by (cases fv) (simp_all add: reads_only_prims reads_only_external)

lemma reads_only_evals_Nil: "reads_only K (evals [])"
  by (simp add: reads_only_prims)

lemma reads_only_evals_Cons:
  "reads_only K e \<Longrightarrow> reads_only K (evals es) \<Longrightarrow> reads_only K (evals (e # es))"
  by (simp add: reads_only_bind reads_only_prims)

lemma reads_only_args_Nil: "reads_only K (eval_args [])"
  by (simp add: reads_only_prims)

lemma reads_only_args_Cons:
  "reads_only K e \<Longrightarrow> reads_only K (eval_args as) \<Longrightarrow> reads_only K (eval_args ((k, e) # as))"
  by (simp add: reads_only_bind reads_only_prims)

lemma reads_only_for_items: "reads_only K body \<Longrightarrow> reads_only K (for_items y vs body)"
  by (induction vs) (simp_all add: reads_only_bind reads_only_prims assign_def)

lemma reads_only_block_Nil: "reads_only K (block [])"
  by (simp add: reads_only_prims)

lemma reads_only_block_Cons:
  "reads_only K c \<Longrightarrow> reads_only K (block cs) \<Longrightarrow> reads_only K (block (c # cs))"
  by (simp add: reads_only_bind)

lemma reads_only_derived:
  "a \<noteq> ''environ'' \<Longrightarrow> reads_only K e \<Longrightarrow> reads_only K (attr e a)"
  "reads_only K e \<Longrightarrow> reads_only K k \<Longrightarrow> reads_only K (subscr e k)"
  "reads_only K (evals es) \<Longrightarrow> reads_only K (list_of es)"
  "reads_only K f \<Longrightarrow> reads_only K (eval_args as) \<Longrightarrow> reads_only K (call f as)"
  "reads_only K c \<Longrightarrow> reads_only K d \<Longrightarrow> reads_only K (eq c d)"
  "reads_only K e \<Longrightarrow> reads_only K (assign n e)"
  "reads_only K e \<Longrightarrow> reads_only K (expr e)"
  "reads_only K (import_from m n)"
  "reads_only K (evals es) \<Longrightarrow> reads_only K (print es)"
  "reads_only K c \<Longrightarrow> reads_only K body \<Longrightarrow> reads_only K (if_then c body)"
  "reads_only K e \<Longrightarrow> reads_only K body \<Longrightarrow> reads_only K (for_in y e body)"
  by (simp_all add: attr_def subscr_def list_of_def call_def eq_def assign_def expr_def
      import_from_def print_def if_then_def for_in_def lit_def
      reads_only_bind reads_only_prims reads_only_apply_val reads_only_for_items
      reads_only_external reads_only_read_attr)

lemmas reads_only_intros = reads_only_prims reads_only_derived reads_only_os_environ
  reads_only_evals_Nil reads_only_evals_Cons reads_only_args_Nil reads_only_args_Cons
  reads_only_block_Nil reads_only_block_Cons

lemma reads_only_quickstart:
  "reads_only {''PROJECT_ENDPOINT'', ''MODEL_DEPLOYMENT_NAME''} quickstart"
  unfolding quickstart_def load_env_def chat_completion_def create_and_run_agent_def
    create_filesearch_agent_def evaluate_agent_run_def
  by (intro reads_only_intros; simp)

lemma reads_only_filesearch: "reads_only {} create_filesearch_agent"
  unfolding create_filesearch_agent_def
  by (intro reads_only_intros; simp)

subsection \<open>The whole script in a world that answers every operation\<close>


text \<open>
  A run that reaches the end issues thirty operations: 0 and 1 are the import and the call
  of \<open>load_dotenv\<close>, 2 to 8 the three imports and four calls of the region
  \<open>chat_completion\<close>, 9 to 14 the six calls of \<open>create_and_run_agent\<close>, 15 to 25 the eleven
  calls of \<open>create_filesearch_agent\<close>, 26 to 29 the import and three calls of
  \<open>evaluate_agent_run\<close>. It needs a namespace that binds \<open>os\<close> and \<open>project\<close>.
\<close>

lemma quickstart_run:
  assumes os: "g ''os'' = Some OsModule" and p: "g ''project'' = Some (Handle p)"
    and env: "map_of (environ w) ''PROJECT_ENDPOINT'' = Some endpoint"
             "map_of (environ w) ''MODEL_DEPLOYMENT_NAME'' = Some model"
    and w0: "env_loaded w 0 f"
    and w1: "chat_world w 2 cls cred_cls tool_cls cred pc oa response"
    and w2: "lifecycle_world w 9 agent1 thread1 message1 run1 ms1"
    and w3: "filesearch_world w 15 file vstore tool agent2 thread2 run2 listing ms2"
    and w4: "evaluation_world w 26 ids result out" and rid: "has_attr w run2 ''id''"
  shows "fst (quickstart w (start g)) = Inr ()"
    and "trace (snd (quickstart w (start g))) =
       [Import ''dotenv'' ''load_dotenv'',
        Call f [],
        Import ''azure.ai.projects.onedp'' ''AIProjectClient'',
        Import ''azure.identity'' ''DefaultAzureCredential'',
        Import ''azure.ai.projects'' ''FileSearchTool'',
        Call cred_cls [],
        Call cls [(''endpoint'', VStr endpoint), (''credential'', cred)],
        Call (pc @ ''.get_openai_client'') [(''api_version'', VStr ''2024-06-01'')],
        Call (oa @ ''.chat.completions.create'') [(''model'', VStr model),
          (''messages'', VList [
             VObj [(''role'', VStr ''system''), (''content'', VStr ''You are a helpful writing assistant'')],
             VObj [(''role'', VStr ''user''), (''content'', VStr ''Write me a poem about flowers'')]])],
        Print [field w (field w (item (field w response ''choices'') (VInt 0)) ''message'') ''content''],
        Call (pc @ ''.agents.create_agent'') [(''model'', VStr model), (''name'', VStr ''my-agent''),
           (''instructions'', VStr ''You are a helpful writing assistant'')],
        Print [VStr ''Created agent, ID: '', field w agent1 ''id''],
        Call (pc @ ''.agents.threads.create'') [],
        Print [VStr ''Created thread, ID: '', field w thread1 ''id''],
        Call (pc @ ''.agents.messages.create'') [(''thread_id'', field w thread1 ''id''),
           (''role'', VStr ''user''), (''content'', VStr ''Write me a poem about flowers'')],
        Print [VStr ''Created message, ID: '', item message1 (VStr ''id'')],
        Call (pc @ ''.agents.runs.create_and_process'')
           [(''thread_id'', field w thread1 ''id''), (''agent_id'', field w agent1 ''id'')],
        Print [VStr ''Run finished with status: '', field w run1 ''status'']] @
       failure_line w run1 @
       [Call (pc @ ''.agents.messages.list'') [(''thread_id'', field w thread1 ''id'')]] @
       map (role_line w) ms1 @
       [Call (pc @ ''.agents.delete_agent'') [([], field w agent1 ''id'')],
        Print [VStr ''Deleted agent''],
        Call (p @ ''.agents.files.upload'')
          [(''file_path'', VStr ''product_info_1.md''), (''purpose'', VStr ''agents'')],
        Call (p @ ''.agents.vector_stores.create_and_poll'')
          [(''file_ids'', VList [field w file ''id'']), (''name'', VStr ''my_vectorstore'')],
        Call tool_cls [(''vector_store_ids'', VList [field w vstore ''id''])],
        Call (p @ ''.agents.create_agent'') [(''model'', VStr ''gpt-4o''), (''name'', VStr ''my-assistant''),
          (''instructions'',
             VStr ''You are a helpful assistant and can search information from uploaded files''),
          (''tools'', field w tool ''definitions''),
          (''tool_resources'', field w tool ''resources'')],
        Call (p @ ''.agents.threads.create'') [],
        Call (p @ ''.agents.messages.create'') [(''thread_id'', field w thread2 ''id''),
          (''role'', VStr ''user''), (''content'', VStr ''Hello, what Contoso products do you know?'')],
        Call (p @ ''.agents.runs.create_and_process'')
          [(''thread_id'', field w thread2 ''id''), (''agent_id'', field w agent2 ''id'')]] @
       failure_line w run2 @
       [Call (p @ ''.agents.vector_stores.delete'') [([], field w vstore ''id'')],
        Call (p @ ''.agents.files.delete'') [(''file_id'', field w file ''id'')],
        Call (p @ ''.agents.delete_agent'') [([], field w agent2 ''id'')],
        Call (p @ ''.agents.messages.list'') [(''thread_id'', field w thread2 ''id'')]] @
       map (\<lambda>m. Print [m]) ms2 @
       [Import ''azure.ai.projects'' ''EvaluatorIds'',
        Call (p @ ''.evaluation.create_agent_evaluation'')
          [(''thread'', field w thread2 ''id''), (''run'', field w run2 ''id''),
           (''evaluators'', VList [field w ids ''AGENT_QUALITY_EVALUATOR''])],
        Call (result @ ''.wait_for_completion'') [],
        Call (result @ ''.output'') [],
        Print [out]]"
proof -
  define s0 where "s0 = start g"
  have g0: "globals s0 = g" and t0: "trace s0 = []" and i0: "issued s0 = 0"
    by (simp_all add: s0_def start_def issued_def)
  have w0': "env_loaded w (issued s0) f"
    using w0 by (simp add: i0)
  note e1 = load_env_run [OF w0']
  define s1 where "s1 = snd (load_env w s0)"
  have l1: "load_env w s0 = (Inr (), s1)"
    and g1: "globals s1 = g(''load_dotenv'' \<mapsto> Handle f)"
    and t1: "trace s1 = [Import ''dotenv'' ''load_dotenv'', Call f []]"
    by (simp_all add: s1_def e1 g0 t0)
  have i1: "issued s1 = 2"
    by (simp add: issued_def t1)
  have e2: "chat_completion w s1 = (Inr (), s1\<lparr>
     globals := (globals s1)(''AIProjectClient'' \<mapsto> Handle cls,
        ''DefaultAzureCredential'' \<mapsto> Handle cred_cls, ''FileSearchTool'' \<mapsto> Handle tool_cls,
        ''project_client'' \<mapsto> Handle pc, ''openai'' \<mapsto> Handle oa, ''response'' \<mapsto> response),
     trace := trace s1 @
       [Import ''azure.ai.projects.onedp'' ''AIProjectClient'',
        Import ''azure.identity'' ''DefaultAzureCredential'',
        Import ''azure.ai.projects'' ''FileSearchTool'',
        Call cred_cls [],
        Call cls [(''endpoint'', VStr endpoint), (''credential'', cred)],
        Call (pc @ ''.get_openai_client'') [(''api_version'', VStr ''2024-06-01'')],
        Call (oa @ ''.chat.completions.create'') [(''model'', VStr model),
          (''messages'', VList [
             VObj [(''role'', VStr ''system''), (''content'', VStr ''You are a helpful writing assistant'')],
             VObj [(''role'', VStr ''user''), (''content'', VStr ''Write me a poem about flowers'')]])],
        Print [field w (field w (item (field w response ''choices'') (VInt 0)) ''message'') ''content'']]\<rparr>)"
    by (rule chat_completion_run) (simp_all add: g1 i1 os env w1)
  define s2 where "s2 = snd (chat_completion w s1)"
  have l2: "chat_completion w s1 = (Inr (), s2)"
    by (simp add: s2_def e2)
  have g2: "globals s2 ''os'' = Some OsModule" "globals s2 ''project'' = Some (Handle p)"
      "globals s2 ''project_client'' = Some (Handle pc)"
      "globals s2 ''FileSearchTool'' = Some (Handle tool_cls)"
    by (simp_all add: s2_def e2 g1 os p)
  have t2: "trace s2 = trace s1 @
       [Import ''azure.ai.projects.onedp'' ''AIProjectClient'',
        Import ''azure.identity'' ''DefaultAzureCredential'',
        Import ''azure.ai.projects'' ''FileSearchTool'',
        Call cred_cls [],
        Call cls [(''endpoint'', VStr endpoint), (''credential'', cred)],
        Call (pc @ ''.get_openai_client'') [(''api_version'', VStr ''2024-06-01'')],
        Call (oa @ ''.chat.completions.create'') [(''model'', VStr model),
          (''messages'', VList [
             VObj [(''role'', VStr ''system''), (''content'', VStr ''You are a helpful writing assistant'')],
             VObj [(''role'', VStr ''user''), (''content'', VStr ''Write me a poem about flowers'')]])],
        Print [field w (field w (item (field w response ''choices'') (VInt 0)) ''message'') ''content'']]"
    by (simp add: s2_def e2)
  have i2: "issued s2 = 9"
    by (simp add: issued_def t2 t1)
  have w2': "lifecycle_world w (issued s2) agent1 thread1 message1 run1 ms1"
    using w2 by (simp add: i2)
  note e3 = create_and_run_agent_run [OF g2(3) g2(1) env(2) w2']
  define s3 where "s3 = snd (create_and_run_agent w s2)"
  have l3: "create_and_run_agent w s2 = (Inr (), s3)"
    by (simp add: s3_def e3)
  have g3: "globals s3 ''project'' = Some (Handle p)"
      "globals s3 ''FileSearchTool'' = Some (Handle tool_cls)"
    by (simp_all add: s3_def e3 g2 rebound_other)
  have t3: "trace s3 = trace s2 @
       [Call (pc @ ''.agents.create_agent'') [(''model'', VStr model), (''name'', VStr ''my-agent''),
           (''instructions'', VStr ''You are a helpful writing assistant'')],
        Print [VStr ''Created agent, ID: '', field w agent1 ''id''],
        Call (pc @ ''.agents.threads.create'') [],
        Print [VStr ''Created thread, ID: '', field w thread1 ''id''],
        Call (pc @ ''.agents.messages.create'') [(''thread_id'', field w thread1 ''id''),
           (''role'', VStr ''user''), (''content'', VStr ''Write me a poem about flowers'')],
        Print [VStr ''Created message, ID: '', item message1 (VStr ''id'')],
        Call (pc @ ''.agents.runs.create_and_process'')
           [(''thread_id'', field w thread1 ''id''), (''agent_id'', field w agent1 ''id'')],
        Print [VStr ''Run finished with status: '', field w run1 ''status'']] @
       failure_line w run1 @
       [Call (pc @ ''.agents.messages.list'') [(''thread_id'', field w thread1 ''id'')]] @
       map (role_line w) ms1 @
       [Call (pc @ ''.agents.delete_agent'') [([], field w agent1 ''id'')],
        Print [VStr ''Deleted agent'']]"
    by (simp add: s3_def e3)
  have i3: "issued s3 = 15"
    by (simp add: issued_def t3 i2 [unfolded issued_def])
  have w3': "filesearch_world w (issued s3) file vstore tool agent2 thread2 run2 listing ms2"
    using w3 by (simp add: i3)
  note e4 = create_filesearch_agent_run [OF g3(1) g3(2) w3']
  define s4 where "s4 = snd (create_filesearch_agent w s3)"
  have l4: "create_filesearch_agent w s3 = (Inr (), s4)"
    by (simp add: s4_def e4)
  have g4: "globals s4 ''project'' = Some (Handle p)" "globals s4 ''thread'' = Some thread2"
      "globals s4 ''run'' = Some run2"
    by (simp_all add: s4_def e4 g3 rebound_other)
  have t4: "trace s4 = trace s3 @
       [Call (p @ ''.agents.files.upload'')
          [(''file_path'', VStr ''product_info_1.md''), (''purpose'', VStr ''agents'')],
        Call (p @ ''.agents.vector_stores.create_and_poll'')
          [(''file_ids'', VList [field w file ''id'']), (''name'', VStr ''my_vectorstore'')],
        Call tool_cls [(''vector_store_ids'', VList [field w vstore ''id''])],
        Call (p @ ''.agents.create_agent'') [(''model'', VStr ''gpt-4o''), (''name'', VStr ''my-assistant''),
          (''instructions'',
             VStr ''You are a helpful assistant and can search information from uploaded files''),
          (''tools'', field w tool ''definitions''),
          (''tool_resources'', field w tool ''resources'')],
        Call (p @ ''.agents.threads.create'') [],
        Call (p @ ''.agents.messages.create'') [(''thread_id'', field w thread2 ''id''),
          (''role'', VStr ''user''), (''content'', VStr ''Hello, what Contoso products do you know?'')],
        Call (p @ ''.agents.runs.create_and_process'')
          [(''thread_id'', field w thread2 ''id''), (''agent_id'', field w agent2 ''id'')]] @
       failure_line w run2 @
       [Call (p @ ''.agents.vector_stores.delete'') [([], field w vstore ''id'')],
        Call (p @ ''.agents.files.delete'') [(''file_id'', field w file ''id'')],
        Call (p @ ''.agents.delete_agent'') [([], field w agent2 ''id'')],
        Call (p @ ''.agents.messages.list'') [(''thread_id'', field w thread2 ''id'')]] @
       map (\<lambda>m. Print [m]) ms2"
    by (simp add: s4_def e4)
  have i4: "issued s4 = 26"
    by (simp add: issued_def t4 i3 [unfolded issued_def])
  have tid: "has_attr w thread2 ''id''"
    using w3 by (simp add: filesearch_world_def)
  have w4': "evaluation_world w (issued s4) ids result out"
    using w4 by (simp add: i4)
  note e5 = evaluate_agent_run_run [OF g4(1) g4(2) tid g4(3) rid w4']
  have q: "quickstart w (start g) = evaluate_agent_run w s4"
    by (simp add: quickstart_def bind_def ret_def l1 l2 l3 l4 s0_def [symmetric] split: prod.splits sum.splits)
  show "fst (quickstart w (start g)) = Inr ()"
    by (simp add: q e5)
  show "trace (snd (quickstart w (start g))) =
       [Import ''dotenv'' ''load_dotenv'',
        Call f [],
        Import ''azure.ai.projects.onedp'' ''AIProjectClient'',
        Import ''azure.identity'' ''DefaultAzureCredential'',
        Import ''azure.ai.projects'' ''FileSearchTool'',
        Call cred_cls [],
        Call cls [(''endpoint'', VStr endpoint), (''credential'', cred)],
        Call (pc @ ''.get_openai_client'') [(''api_version'', VStr ''2024-06-01'')],
        Call (oa @ ''.chat.completions.create'') [(''model'', VStr model),
          (''messages'', VList [
             VObj [(''role'', VStr ''system''), (''content'', VStr ''You are a helpful writing assistant'')],
             VObj [(''role'', VStr ''user''), (''content'', VStr ''Write me a poem about flowers'')]])],
        Print [field w (field w (item (field w response ''choices'') (VInt 0)) ''message'') ''content''],
        Call (pc @ ''.agents.create_agent'') [(''model'', VStr model), (''name'', VStr ''my-agent''),
           (''instructions'', VStr ''You are a helpful writing assistant'')],
        Print [VStr ''Created agent, ID: '', field w agent1 ''id''],
        Call (pc @ ''.agents.threads.create'') [],
        Print [VStr ''Created thread, ID: '', field w thread1 ''id''],
        Call (pc @ ''.agents.messages.create'') [(''thread_id'', field w thread1 ''id''),
           (''role'', VStr ''user''), (''content'', VStr ''Write me a poem about flowers'')],
        Print [VStr ''Created message, ID: '', item message1 (VStr ''id'')],
        Call (pc @ ''.agents.runs.create_and_process'')
           [(''thread_id'', field w thread1 ''id''), (''agent_id'', field w agent1 ''id'')],
        Print [VStr ''Run finished with status: '', field w run1 ''status'']] @
       failure_line w run1 @
       [Call (pc @ ''.agents.messages.list'') [(''thread_id'', field w thread1 ''id'')]] @
       map (role_line w) ms1 @
       [Call (pc @ ''.agents.delete_agent'') [([], field w agent1 ''id'')],
        Print [VStr ''Deleted agent''],
        Call (p @ ''.agents.files.upload'')
          [(''file_path'', VStr ''product_info_1.md''), (''purpose'', VStr ''agents'')],
        Call (p @ ''.agents.vector_stores.create_and_poll'')
          [(''file_ids'', VList [field w file ''id'']), (''name'', VStr ''my_vectorstore'')],
        Call tool_cls [(''vector_store_ids'', VList [field w vstore ''id''])],
        Call (p @ ''.agents.create_agent'') [(''model'', VStr ''gpt-4o''), (''name'', VStr ''my-assistant''),
          (''instructions'',
             VStr ''You are a helpful assistant and can search information from uploaded files''),
          (''tools'', field w tool ''definitions''),
          (''tool_resources'', field w tool ''resources'')],
        Call (p @ ''.agents.threads.create'') [],
        Call (p @ ''.agents.messages.create'') [(''thread_id'', field w thread2 ''id''),
          (''role'', VStr ''user''), (''content'', VStr ''Hello, what Contoso products do you know?'')],
        Call (p @ ''.agents.runs.create_and_process'')
          [(''thread_id'', field w thread2 ''id''), (''agent_id'', field w agent2 ''id'')]] @
       failure_line w run2 @
       [Call (p @ ''.agents.vector_stores.delete'') [([], field w vstore ''id'')],
        Call (p @ ''.agents.files.delete'') [(''file_id'', field w file ''id'')],
        Call (p @ ''.agents.delete_agent'') [([], field w agent2 ''id'')],
        Call (p @ ''.agents.messages.list'') [(''thread_id'', field w thread2 ''id'')]] @
       map (\<lambda>m. Print [m]) ms2 @
       [Import ''azure.ai.projects'' ''EvaluatorIds'',
        Call (p @ ''.evaluation.create_agent_evaluation'')
          [(''thread'', field w thread2 ''id''), (''run'', field w run2 ''id''),
           (''evaluators'', VList [field w ids ''AGENT_QUALITY_EVALUATOR''])],
        Call (result @ ''.wait_for_completion'') [],
        Call (result @ ''.output'') [],
        Print [out]]"
    by (simp add: q e5 t4 t3 t2 t1)
qed

subsection \<open>Runs that stop at the client bootstrap\<close>

lemma chat_completion_without_os:
  assumes "globals s ''os'' = None"
    and "reply w (issued s) = Inr a" "reply w (issued s + 1) = Inr b" "reply w (issued s + 2) = Inr c"
  shows "chat_completion w s = (Inl (NameError ''os''), s\<lparr>
     globals := (globals s)(''AIProjectClient'' \<mapsto> a, ''DefaultAzureCredential'' \<mapsto> b,
        ''FileSearchTool'' \<mapsto> c),
     trace := trace s @
       [Import ''azure.ai.projects.onedp'' ''AIProjectClient'',
        Import ''azure.identity'' ''DefaultAzureCredential'',
        Import ''azure.ai.projects'' ''FileSearchTool'']\<rparr>)"
  using assms
  by (simp add: chat_completion_def run_simps run_defs issued_def)


lemma quickstart_stops_in_chat:
  assumes w0: "env_loaded w 0 f"
    and c: "chat_completion w (start g\<lparr>globals := g(''load_dotenv'' \<mapsto> Handle f),
              trace := [Import ''dotenv'' ''load_dotenv'', Call f []]\<rparr>) = (Inl e, s')"
  shows "quickstart w (start g) = (Inl e, s')"
proof -
  have i0: "issued (start g) = 0" by (simp add: issued_def start_def)
  have "env_loaded w (issued (start g)) f" using w0 by (simp add: i0)
  from load_env_run [OF this] have "load_env w (start g) =
      (Inr (), start g\<lparr>globals := g(''load_dotenv'' \<mapsto> Handle f),
              trace := [Import ''dotenv'' ''load_dotenv'', Call f []]\<rparr>)"
    by (simp add: start_def)
  then show ?thesis
    using c by (simp add: quickstart_def bind_def)
qed


subsection \<open>The sample world\<close>

lemma sample_world_answers:
  "env_loaded (sample_world st1 st2) 0 ''load_dotenv''"
  "chat_world (sample_world st1 st2) 2 ''AIProjectClient'' ''DefaultAzureCredential''
     ''FileSearchTool'' (Handle ''credential'') ''client'' ''openai'' sample_response"
  "lifecycle_world (sample_world st1 st2) 9 (VObj [(''id'', VStr ''asst_1'')])
     (VObj [(''id'', VStr ''thread_1'')]) (VObj [(''id'', VStr ''msg_1'')])
     (sample_run ''run_1'' st1) sample_messages"
  "filesearch_world (sample_world st1 st2) 15 (VObj [(''id'', VStr ''file_1'')])
     (VObj [(''id'', VStr ''vs_1'')]) sample_tool (VObj [(''id'', VStr ''asst_2'')])
     (VObj [(''id'', VStr ''thread_2'')]) (sample_run ''run_2'' st2)
     (VObj [(''text_messages'', VList [VStr ''Contoso sells tents''])]) [VStr ''Contoso sells tents'']"
  "evaluation_world (sample_world st1 st2) 26 (Handle ''EvaluatorIds'') ''evaluation''
     (VStr ''quality: 5'')"
  "has_attr (sample_world st1 st2) (sample_run ''run_2'' st2) ''id''"
  by (simp_all add: sample_defs env_loaded_def chat_world_def lifecycle_world_def
      filesearch_world_def evaluation_world_def has_attr_def has_item_def field_def item_def
      index_def)

lemma sample_world_env:
  "prepared ''os'' = Some OsModule" "prepared ''project'' = Some (Handle ''project'')"
  "map_of (environ (sample_world st1 st2)) ''PROJECT_ENDPOINT'' =
     Some ''https://contoso.example/api/projects/demo''"
  "map_of (environ (sample_world st1 st2)) ''MODEL_DEPLOYMENT_NAME'' = Some ''gpt-4o-mini''"
  by (simp_all add: sample_defs)

lemmas sample_world_run =
  quickstart_run [OF sample_world_env sample_world_answers]


subsection \<open>Runs from a namespace that lacks a name\<close>

lemma load_env_calls:
  "\<forall>ev\<in>set (trace (snd (load_env w (start g)))).
     is_call ev \<longrightarrow> (\<exists>h. reply w 0 = Inr (Handle h) \<and> ev = Call h [])"
proof (cases "reply w 0")
  case (Inl e)
  then show ?thesis
    by (simp add: load_env_def run_simps run_defs start_def issued_def)
next
  case (Inr v)
  then show ?thesis
    by (cases v)
      (simp_all add: load_env_def run_simps run_defs start_def issued_def split: sum.splits)
qed

lemma chat_completion_needs_os:
  assumes "globals s ''os'' = None"
  shows "\<exists>e. fst (chat_completion w s) = Inl e"
    and "filter is_call (trace (snd (chat_completion w s))) = filter is_call (trace s)"
  using assms
  by (simp_all add: chat_completion_def run_simps run_defs issued_def split: sum.splits)

lemma keeps_result:
  assumes "keeps x m" and "globals s x = None" and "m w s = (r, s')"
  shows "globals s' x = None"
  using assms unfolding keeps_def by (metis snd_conv)

lemma run_script_outcome:
  "\<exists>e s'. run_script w = (Inl e, s') \<and>
     (\<forall>ev\<in>set (trace s'). is_call ev \<longrightarrow> (\<exists>h. reply w 0 = Inr (Handle h) \<and> ev = Call h []))"
proof -
  obtain r1 s1 where e1: "load_env w (start Map.empty) = (r1, s1)"
    by (cases "load_env w (start Map.empty)")
  have g1: "globals s1 ''os'' = None"
    by (rule keeps_result [OF keeps_os_load_env _ e1]) (simp add: start_def)
  have c1: "\<forall>ev\<in>set (trace s1). is_call ev \<longrightarrow> (\<exists>h. reply w 0 = Inr (Handle h) \<and> ev = Call h [])"
    using load_env_calls [of w Map.empty] e1 by simp
  obtain r2 s2 where e2: "chat_completion w s1 = (r2, s2)"
    by (cases "chat_completion w s1")
  from chat_completion_needs_os [OF g1, of w] e2
  obtain e where r2: "r2 = Inl e" and f2: "filter is_call (trace s2) = filter is_call (trace s1)"
    by auto
  have c2: "\<forall>ev\<in>set (trace s2). is_call ev \<longrightarrow> (\<exists>h. reply w 0 = Inr (Handle h) \<and> ev = Call h [])"
  proof (intro ballI impI)
    fix ev assume "ev \<in> set (trace s2)" and "is_call ev"
    then have "ev \<in> set (filter is_call (trace s2))" by simp
    then have "ev \<in> set (trace s1)" by (simp add: f2)
    with c1 \<open>is_call ev\<close> show "\<exists>h. reply w 0 = Inr (Handle h) \<and> ev = Call h []" by blast
  qed
  show ?thesis
  proof (cases r1)
    case (Inl e1')
    then have "run_script w = (Inl e1', s1)"
      by (simp add: run_script_def quickstart_def bind_def e1)
    with c1 show ?thesis by blast
  next
    case (Inr u)
    then have "run_script w = (Inl e, s2)"
      by (simp add: run_script_def quickstart_def bind_def e1 e2 r2)
    with c2 show ?thesis by blast
  qed
qed

lemma run_script_fails: "\<exists>e. fst (run_script w) = Inl e"
  using run_script_outcome [of w] by auto

lemma run_script_calls:
  "\<forall>ev\<in>set (trace (snd (run_script w))).
     is_call ev \<longrightarrow> (\<exists>h. reply w 0 = Inr (Handle h) \<and> ev = Call h [])"
  using run_script_outcome [of w] by auto

lemma run_script_name_error:
  assumes "env_loaded w 0 f" "is_value (reply w 2)" "is_value (reply w 3)" "is_value (reply w 4)"
  shows "fst (run_script w) = Inl (NameError ''os'')"
    and "trace (snd (run_script w)) =
        [Import ''dotenv'' ''load_dotenv'',
         Call f [],
         Import ''azure.ai.projects.onedp'' ''AIProjectClient'',
         Import ''azure.identity'' ''DefaultAzureCredential'',
         Import ''azure.ai.projects'' ''FileSearchTool'']"
proof -
  from assms obtain a2 a3 a4 where r: "reply w 2 = Inr a2" "reply w 3 = Inr a3" "reply w 4 = Inr a4"
    by (auto elim!: is_valueE)
  let ?s1 = "start Map.empty\<lparr>globals := Map.empty(''load_dotenv'' \<mapsto> Handle f),
              trace := [Import ''dotenv'' ''load_dotenv'', Call f []]\<rparr>"
  have i1: "issued ?s1 = 2" by (simp add: issued_def)
  have c: "chat_completion w ?s1 = (Inl (NameError ''os''), ?s1\<lparr>
     globals := (globals ?s1)(''AIProjectClient'' \<mapsto> a2, ''DefaultAzureCredential'' \<mapsto> a3,
        ''FileSearchTool'' \<mapsto> a4),
     trace := trace ?s1 @
       [Import ''azure.ai.projects.onedp'' ''AIProjectClient'',
        Import ''azure.identity'' ''DefaultAzureCredential'',
        Import ''azure.ai.projects'' ''FileSearchTool'']\<rparr>)"
    by (rule chat_completion_without_os) (use r in \<open>simp_all add: i1\<close>)
  note q = quickstart_stops_in_chat [OF assms(1) c]
  show "fst (run_script w) = Inl (NameError ''os'')"
    by (simp add: run_script_def q)
  show "trace (snd (run_script w)) =
        [Import ''dotenv'' ''load_dotenv'',
         Call f [],
         Import ''azure.ai.projects.onedp'' ''AIProjectClient'',
         Import ''azure.identity'' ''DefaultAzureCredential'',
         Import ''azure.ai.projects'' ''FileSearchTool'']"
    by (simp add: run_script_def q)
qed

lemma filesearch_without_project:
  "globals s ''project'' = None \<Longrightarrow>
     create_filesearch_agent w s = (Inl (NameError ''project''), s)"
  by (simp add: create_filesearch_agent_def run_simps run_defs)

lemma evaluation_without_project:
  "globals s ''project'' = None \<Longrightarrow> is_value (reply w (issued s)) \<Longrightarrow>
     fst (evaluate_agent_run w s) = Inl (NameError ''project'')"
  by (auto elim!: is_valueE simp: evaluate_agent_run_def run_simps run_defs)

lemma quickstart_needs_project:
  assumes "g ''project'' = None"
  shows "\<exists>e. fst (quickstart w (start g)) = Inl e"
proof -
  have g0: "globals (start g) ''project'' = None"
    using assms by (simp add: start_def)
  obtain r1 s1 where e1: "load_env w (start g) = (r1, s1)" by (cases "load_env w (start g)")
  have g1: "globals s1 ''project'' = None"
    by (rule keeps_result [OF keeps_project_load_env g0 e1])
  obtain r2 s2 where e2: "chat_completion w s1 = (r2, s2)" by (cases "chat_completion w s1")
  have g2: "globals s2 ''project'' = None"
    by (rule keeps_result [OF keeps_project_chat g1 e2])
  obtain r3 s3 where e3: "create_and_run_agent w s2 = (r3, s3)"
    by (cases "create_and_run_agent w s2")
  have g3: "globals s3 ''project'' = None"
    by (rule keeps_result [OF keeps_project_lifecycle g2 e3])
  note e4 = filesearch_without_project [OF g3, of w]
  show ?thesis
    by (cases r1; cases r2; cases r3) (simp_all add: quickstart_def bind_def e1 e2 e3 e4)
qed

section \<open>The claims\<close>

subsection \<open>C1: the names the script never binds\<close>

text \<open>
  C1, as the claim states it: every execution of the script raises a NameError. It does
  not: where the first import fails (the package \<open>dotenv\<close> is not installed), the run ends
  with the exception of that import.
\<close>

theorem import_failure_counterexample:
  "\<not> (\<forall>w. \<exists>n. fst (run_script w) = Inl (NameError n))"
proof
  assume "\<forall>w. \<exists>n. fst (run_script w) = Inl (NameError n)"
  then obtain n where "fst (run_script no_dotenv_world) = Inl (NameError n)"
    by blast
  moreover have "fst (run_script no_dotenv_world) = Inl (Raised ''ModuleNotFoundError'')"
    by (simp add: run_script_def quickstart_def load_env_def run_simps run_defs start_def
        issued_def sample_defs)
  ultimately show False by simp
qed

text \<open>
  C1, amended. Run as a script, from a namespace that binds none of its names, the program
  never completes and issues no SDK call: in every world the run ends with an exception,
  and the only call its trace can hold is the call of \<open>load_dotenv\<close>. Where the four
  imports and the call of \<open>load_dotenv\<close> succeed, the exception is the NameError for \<open>os\<close>,
  raised while the arguments of \<open>AIProjectClient\<close> are evaluated, after exactly those five
  operations. The name \<open>project\<close> is not bound by the script either: started in any
  namespace that does not bind \<open>project\<close> (even one that binds \<open>os\<close>), the run ends with an
  exception; the region \<open>create_filesearch_agent\<close> raises the NameError for \<open>project\<close> at
  its first statement, and the region \<open>evaluate_agent_run\<close> right after its import.
\<close>

theorem unbound_names_stop_the_script:
  "(\<exists>e. fst (run_script w) = Inl e) \<and>
   (\<forall>ev\<in>set (trace (snd (run_script w))).
      is_call ev \<longrightarrow> (\<exists>h. reply w 0 = Inr (Handle h) \<and> ev = Call h [])) \<and>
   (env_loaded w 0 f \<and> is_value (reply w 2) \<and> is_value (reply w 3) \<and> is_value (reply w 4) \<longrightarrow>
      fst (run_script w) = Inl (NameError ''os'') \<and>
      trace (snd (run_script w)) =
        [Import ''dotenv'' ''load_dotenv'',
         Call f [],
         Import ''azure.ai.projects.onedp'' ''AIProjectClient'',
         Import ''azure.identity'' ''DefaultAzureCredential'',
         Import ''azure.ai.projects'' ''FileSearchTool'']) \<and>
   (g ''project'' = None \<longrightarrow> (\<exists>e. fst (quickstart w (start g)) = Inl e)) \<and>
   (globals s ''project'' = None \<longrightarrow>
      create_filesearch_agent w s = (Inl (NameError ''project''), s)) \<and>
   (globals s ''project'' = None \<and> is_value (reply w (issued s)) \<longrightarrow>
      fst (evaluate_agent_run w s) = Inl (NameError ''project''))"
  using run_script_fails [of w] run_script_calls [of w] run_script_name_error [of w f]
    quickstart_needs_project [of g w] filesearch_without_project [of s w]
    evaluation_without_project [of s w]
  by blast

theorem unbound_names_stop_the_script_witness:
  "fst (run_script (sample_world ''completed'' ''completed'')) = Inl (NameError ''os'') \<and>
   trace (snd (run_script (sample_world ''completed'' ''completed''))) =
        [Import ''dotenv'' ''load_dotenv'',
         Call ''load_dotenv'' [],
         Import ''azure.ai.projects.onedp'' ''AIProjectClient'',
         Import ''azure.identity'' ''DefaultAzureCredential'',
         Import ''azure.ai.projects'' ''FileSearchTool''] \<and>
   (\<exists>e. fst (quickstart (sample_world ''completed'' ''completed'') (start [''os'' \<mapsto> OsModule])) = Inl e) \<and>
   create_filesearch_agent (sample_world ''completed'' ''completed'') (start [''os'' \<mapsto> OsModule]) =
     (Inl (NameError ''project''), start [''os'' \<mapsto> OsModule]) \<and>
   fst (evaluate_agent_run (sample_world ''completed'' ''completed'') (start [''os'' \<mapsto> OsModule])) =
     Inl (NameError ''project'')"
proof -
  note t = unbound_names_stop_the_script [where w = "sample_world ''completed'' ''completed''"
      and f = "''load_dotenv''" and g = "[''os'' \<mapsto> OsModule]" and s = "start [''os'' \<mapsto> OsModule]"]
  have h1: "env_loaded (sample_world ''completed'' ''completed'') 0 ''load_dotenv'' \<and>
      is_value (reply (sample_world ''completed'' ''completed'') 2) \<and>
      is_value (reply (sample_world ''completed'' ''completed'') 3) \<and>
      is_value (reply (sample_world ''completed'' ''completed'') 4)"
    by (simp add: sample_defs env_loaded_def)
  have h2: "[''os'' \<mapsto> OsModule] ''project'' = None"
    by simp
  have h3: "globals (start [''os'' \<mapsto> OsModule]) ''project'' = None"
    by (simp add: start_def)
  have h4: "is_value (reply (sample_world ''completed'' ''completed'')
      (issued (start [''os'' \<mapsto> OsModule])))"
    by (simp add: sample_defs start_def issued_def)
  from t h1 h2 h3 h4 show ?thesis by blast
qed

subsection \<open>C2: the status checks\<close>

text \<open>
  C2, as the claim states it: the script performs exactly one conditional check in total,
  so that a run prints at most one diagnostic. It does not: the status of a run is tested
  once in each of the two agent sections (lines 81 and 117), and a run in which both runs
  failed prints two diagnostics.
\<close>

theorem one_check_counterexample:
  "\<not> (\<forall>w g. length (filter is_diagnostic (trace (snd (quickstart w (start g))))) \<le> 1)"
proof
  assume "\<forall>w g. length (filter is_diagnostic (trace (snd (quickstart w (start g))))) \<le> 1"
  then have "length (filter is_diagnostic
      (trace (snd (quickstart (sample_world ''failed'' ''failed'') (start prepared))))) \<le> 1"
    by blast
  then show False
    by (simp add: sample_world_run(2) failure_line_def field_def sample_run_def)
qed

text \<open>
  C2, amended. The script tests a run status against \<open>failed\<close> twice, once in the region
  \<open>create_and_run_agent\<close> and once in the region \<open>create_filesearch_agent\<close>, each time
  printing the run's \<open>last_error\<close> on that branch: the diagnostics of a complete run are
  the line of the first run if its status is \<open>failed\<close>, followed by the line of the
  second run if its status is \<open>failed\<close>. Nothing else in a complete run is conditional:
  its trace is one fixed sequence of operations and printed lines, with these two lines
  in their places and one printed line per listed message.
\<close>

theorem status_checked_in_both_sections:
  assumes "g ''os'' = Some OsModule" and "g ''project'' = Some (Handle p)"
    and "map_of (environ w) ''PROJECT_ENDPOINT'' = Some endpoint"
    and "map_of (environ w) ''MODEL_DEPLOYMENT_NAME'' = Some model"
    and "env_loaded w 0 f"
    and "chat_world w 2 cls cred_cls tool_cls cred pc oa response"
    and "lifecycle_world w 9 agent1 thread1 message1 run1 ms1"
    and "filesearch_world w 15 uploaded vstore tool agent2 thread2 run2 listing ms2"
    and "evaluation_world w 26 ids result out" and "has_attr w run2 ''id''"
  shows "filter is_diagnostic (trace (snd (quickstart w (start g)))) =
     (if field w run1 ''status'' = VStr ''failed''
      then [Print [VStr ''Run failed: '', field w run1 ''last_error'']] else []) @
     (if field w run2 ''status'' = VStr ''failed''
      then [Print [VStr ''Run failed: '', field w run2 ''last_error'']] else []) \<and>
     trace (snd (quickstart w (start g))) =
         [Import ''dotenv'' ''load_dotenv'',
          Call f [],
          Import ''azure.ai.projects.onedp'' ''AIProjectClient'',
          Import ''azure.identity'' ''DefaultAzureCredential'',
          Import ''azure.ai.projects'' ''FileSearchTool'',
          Call cred_cls [],
          Call cls [(''endpoint'', VStr endpoint), (''credential'', cred)],
          Call (pc @ ''.get_openai_client'') [(''api_version'', VStr ''2024-06-01'')],
          Call (oa @ ''.chat.completions.create'') [(''model'', VStr model),
            (''messages'', VList [
               VObj [(''role'', VStr ''system''), (''content'', VStr ''You are a helpful writing assistant'')],
               VObj [(''role'', VStr ''user''), (''content'', VStr ''Write me a poem about flowers'')]])],
          Print [field w (field w (item (field w response ''choices'') (VInt 0)) ''message'') ''content''],
          Call (pc @ ''.agents.create_agent'') [(''model'', VStr model), (''name'', VStr ''my-agent''),
             (''instructions'', VStr ''You are a helpful writing assistant'')],
          Print [VStr ''Created agent, ID: '', field w agent1 ''id''],
          Call (pc @ ''.agents.threads.create'') [],
          Print [VStr ''Created thread, ID: '', field w thread1 ''id''],
          Call (pc @ ''.agents.messages.create'') [(''thread_id'', field w thread1 ''id''),
             (''role'', VStr ''user''), (''content'', VStr ''Write me a poem about flowers'')],
          Print [VStr ''Created message, ID: '', item message1 (VStr ''id'')],
          Call (pc @ ''.agents.runs.create_and_process'')
             [(''thread_id'', field w thread1 ''id''), (''agent_id'', field w agent1 ''id'')],
          Print [VStr ''Run finished with status: '', field w run1 ''status'']] @
         (if field w run1 ''status'' = VStr ''failed''
          then [Print [VStr ''Run failed: '', field w run1 ''last_error'']] else []) @
         [Call (pc @ ''.agents.messages.list'') [(''thread_id'', field w thread1 ''id'')]] @
         map (role_line w) ms1 @
         [Call (pc @ ''.agents.delete_agent'') [([], field w agent1 ''id'')],
          Print [VStr ''Deleted agent''],
          Call (p @ ''.agents.files.upload'')
            [(''file_path'', VStr ''product_info_1.md''), (''purpose'', VStr ''agents'')],
          Call (p @ ''.agents.vector_stores.create_and_poll'')
            [(''file_ids'', VList [field w uploaded ''id'']), (''name'', VStr ''my_vectorstore'')],
          Call tool_cls [(''vector_store_ids'', VList [field w vstore ''id''])],
          Call (p @ ''.agents.create_agent'') [(''model'', VStr ''gpt-4o''), (''name'', VStr ''my-assistant''),
            (''instructions'',
               VStr ''You are a helpful assistant and can search information from uploaded files''),
            (''tools'', field w tool ''definitions''),
            (''tool_resources'', field w tool ''resources'')],
          Call (p @ ''.agents.threads.create'') [],
          Call (p @ ''.agents.messages.create'') [(''thread_id'', field w thread2 ''id''),
            (''role'', VStr ''user''), (''content'', VStr ''Hello, what Contoso products do you know?'')],
          Call (p @ ''.agents.runs.create_and_process'')
            [(''thread_id'', field w thread2 ''id''), (''agent_id'', field w agent2 ''id'')]] @
         (if field w run2 ''status'' = VStr ''failed''
          then [Print [VStr ''Run failed: '', field w run2 ''last_error'']] else []) @
         [Call (p @ ''.agents.vector_stores.delete'') [([], field w vstore ''id'')],
          Call (p @ ''.agents.files.delete'') [(''file_id'', field w uploaded ''id'')],
          Call (p @ ''.agents.delete_agent'') [([], field w agent2 ''id'')],
          Call (p @ ''.agents.messages.list'') [(''thread_id'', field w thread2 ''id'')]] @
         map (\<lambda>m. Print [m]) ms2 @
         [Import ''azure.ai.projects'' ''EvaluatorIds'',
          Call (p @ ''.evaluation.create_agent_evaluation'')
            [(''thread'', field w thread2 ''id''), (''run'', field w run2 ''id''),
             (''evaluators'', VList [field w ids ''AGENT_QUALITY_EVALUATOR''])],
          Call (result @ ''.wait_for_completion'') [],
          Call (result @ ''.output'') [],
          Print [out]]"
  by (simp add: quickstart_run(2) [OF assms] failure_line_def)

theorem status_checked_in_both_sections_witness:
  "filter is_diagnostic (trace (snd (quickstart (sample_world ''completed'' ''failed'') (start prepared)))) =
     [Print [VStr ''Run failed: '', VStr ''rate limit exceeded'']]"
  using status_checked_in_both_sections [OF sample_world_env sample_world_answers, of "''completed''" "''failed''"]
  by (simp add: field_def sample_run_def)

subsection \<open>C3: the order of the calls of the agent lifecycle\<close>

text \<open>
  C3. In the region \<open>create_and_run_agent\<close>, run where \<open>project_client\<close> and \<open>os\<close> are
  bound and the world answers the six calls, the calls are issued in this order: create
  the agent, create the thread, post the user message to that thread, create and process
  a run on that thread with that agent, list the messages of that thread, delete that
  agent. The thread id and the agent id passed are the \<open>id\<close> attributes of what the
  earlier calls returned, and the model is the value of \<open>MODEL_DEPLOYMENT_NAME\<close>.
\<close>

theorem agent_lifecycle_call_order:
  assumes "globals s ''project_client'' = Some (Handle pc)"
    and "globals s ''os'' = Some OsModule"
    and "map_of (environ w) ''MODEL_DEPLOYMENT_NAME'' = Some model"
    and "lifecycle_world w (issued s) agent thread message run ms"
  shows "fst (create_and_run_agent w s) = Inr () \<and>
     filter is_call (trace (snd (create_and_run_agent w s))) = filter is_call (trace s) @
       [Call (pc @ ''.agents.create_agent'') [(''model'', VStr model), (''name'', VStr ''my-agent''),
           (''instructions'', VStr ''You are a helpful writing assistant'')],
        Call (pc @ ''.agents.threads.create'') [],
        Call (pc @ ''.agents.messages.create'') [(''thread_id'', field w thread ''id''),
           (''role'', VStr ''user''), (''content'', VStr ''Write me a poem about flowers'')],
        Call (pc @ ''.agents.runs.create_and_process'')
           [(''thread_id'', field w thread ''id''), (''agent_id'', field w agent ''id'')],
        Call (pc @ ''.agents.messages.list'') [(''thread_id'', field w thread ''id'')],
        Call (pc @ ''.agents.delete_agent'') [([], field w agent ''id'')]]"
  by (simp add: create_and_run_agent_run [OF assms])

theorem agent_lifecycle_call_order_witness:
  "fst (create_and_run_agent (scripted (lifecycle_replies ''completed''))
          (start (prepared(''project_client'' \<mapsto> Handle ''client'')))) = Inr () \<and>
   filter is_call (trace (snd (create_and_run_agent (scripted (lifecycle_replies ''completed''))
          (start (prepared(''project_client'' \<mapsto> Handle ''client'')))))) =
     [Call ''client.agents.create_agent'' [(''model'', VStr ''gpt-4o-mini''), (''name'', VStr ''my-agent''),
         (''instructions'', VStr ''You are a helpful writing assistant'')],
      Call ''client.agents.threads.create'' [],
      Call ''client.agents.messages.create'' [(''thread_id'', VStr ''thread_1''),
         (''role'', VStr ''user''), (''content'', VStr ''Write me a poem about flowers'')],
      Call ''client.agents.runs.create_and_process''
         [(''thread_id'', VStr ''thread_1''), (''agent_id'', VStr ''asst_1'')],
      Call ''client.agents.messages.list'' [(''thread_id'', VStr ''thread_1'')],
      Call ''client.agents.delete_agent'' [([], VStr ''asst_1'')]]"
  using agent_lifecycle_call_order [of "start (prepared(''project_client'' \<mapsto> Handle ''client''))"
      "''client''" "scripted (lifecycle_replies ''completed'')" "''gpt-4o-mini''"
      "VObj [(''id'', VStr ''asst_1'')]" "VObj [(''id'', VStr ''thread_1'')]"
      "VObj [(''id'', VStr ''msg_1'')]" "sample_run ''run_1'' ''completed''" sample_messages]
  by (simp add: sample_defs start_def issued_def lifecycle_world_def has_attr_def field_def
      has_item_def)

subsection \<open>C4: the order of the calls of the file-search section\<close>

text \<open>
  C4. In the region \<open>create_filesearch_agent\<close>, run where \<open>project\<close> and \<open>FileSearchTool\<close>
  are bound and the world answers the eleven calls, the calls are issued in this order:
  upload the file, create the vector store over the id of that file, construct the
  file-search tool over the id of that store, create the agent with the tool's definitions
  and resources, create a thread, post the user message, create and process the run, then
  delete the vector store, the file and the agent, and list the messages of the thread.
  Every id passed is the \<open>id\<close> attribute of what an earlier call returned.
\<close>

theorem filesearch_call_order:
  assumes "globals s ''project'' = Some (Handle p)"
    and "globals s ''FileSearchTool'' = Some (Handle tool_cls)"
    and "filesearch_world w (issued s) uploaded vstore tool agent thread run listing ms"
  shows "fst (create_filesearch_agent w s) = Inr () \<and>
     filter is_call (trace (snd (create_filesearch_agent w s))) = filter is_call (trace s) @
       [Call (p @ ''.agents.files.upload'')
          [(''file_path'', VStr ''product_info_1.md''), (''purpose'', VStr ''agents'')],
        Call (p @ ''.agents.vector_stores.create_and_poll'')
          [(''file_ids'', VList [field w uploaded ''id'']), (''name'', VStr ''my_vectorstore'')],
        Call tool_cls [(''vector_store_ids'', VList [field w vstore ''id''])],
        Call (p @ ''.agents.create_agent'') [(''model'', VStr ''gpt-4o''), (''name'', VStr ''my-assistant''),
          (''instructions'',
             VStr ''You are a helpful assistant and can search information from uploaded files''),
          (''tools'', field w tool ''definitions''),
          (''tool_resources'', field w tool ''resources'')],
        Call (p @ ''.agents.threads.create'') [],
        Call (p @ ''.agents.messages.create'') [(''thread_id'', field w thread ''id''),
          (''role'', VStr ''user''), (''content'', VStr ''Hello, what Contoso products do you know?'')],
        Call (p @ ''.agents.runs.create_and_process'')
          [(''thread_id'', field w thread ''id''), (''agent_id'', field w agent ''id'')],
        Call (p @ ''.agents.vector_stores.delete'') [([], field w vstore ''id'')],
        Call (p @ ''.agents.files.delete'') [(''file_id'', field w uploaded ''id'')],
        Call (p @ ''.agents.delete_agent'') [([], field w agent ''id'')],
        Call (p @ ''.agents.messages.list'') [(''thread_id'', field w thread ''id'')]]"
  by (simp add: create_filesearch_agent_run [OF assms])

theorem filesearch_call_order_witness:
  "fst (create_filesearch_agent (scripted (filesearch_replies ''completed''))
          (start (prepared(''FileSearchTool'' \<mapsto> Handle ''FileSearchTool'')))) = Inr () \<and>
   filter is_call (trace (snd (create_filesearch_agent (scripted (filesearch_replies ''completed''))
          (start (prepared(''FileSearchTool'' \<mapsto> Handle ''FileSearchTool'')))))) =
       [Call ''project.agents.files.upload''
          [(''file_path'', VStr ''product_info_1.md''), (''purpose'', VStr ''agents'')],
        Call ''project.agents.vector_stores.create_and_poll''
          [(''file_ids'', VList [VStr ''file_1'']), (''name'', VStr ''my_vectorstore'')],
        Call ''FileSearchTool'' [(''vector_store_ids'', VList [VStr ''vs_1''])],
        Call ''project.agents.create_agent'' [(''model'', VStr ''gpt-4o''), (''name'', VStr ''my-assistant''),
          (''instructions'',
             VStr ''You are a helpful assistant and can search information from uploaded files''),
          (''tools'', VList [VObj [(''type'', VStr ''file_search'')]]),
          (''tool_resources'',
             VObj [(''file_search'', VObj [(''vector_store_ids'', VList [VStr ''vs_1''])])])],
        Call ''project.agents.threads.create'' [],
        Call ''project.agents.messages.create'' [(''thread_id'', VStr ''thread_2''),
          (''role'', VStr ''user''), (''content'', VStr ''Hello, what Contoso products do you know?'')],
        Call ''project.agents.runs.create_and_process''
          [(''thread_id'', VStr ''thread_2''), (''agent_id'', VStr ''asst_2'')],
        Call ''project.agents.vector_stores.delete'' [([], VStr ''vs_1'')],
        Call ''project.agents.files.delete'' [(''file_id'', VStr ''file_1'')],
        Call ''project.agents.delete_agent'' [([], VStr ''asst_2'')],
        Call ''project.agents.messages.list'' [(''thread_id'', VStr ''thread_2'')]]"
  using filesearch_call_order [where s = "start (prepared(''FileSearchTool'' \<mapsto> Handle ''FileSearchTool''))"
      and p = "''project''" and tool_cls = "''FileSearchTool''"
      and w = "scripted (filesearch_replies ''completed'')"
      and uploaded = "VObj [(''id'', VStr ''file_1'')]" and vstore = "VObj [(''id'', VStr ''vs_1'')]"
      and tool = sample_tool and agent = "VObj [(''id'', VStr ''asst_2'')]"
      and thread = "VObj [(''id'', VStr ''thread_2'')]" and run = "sample_run ''run_2'' ''completed''"
      and listing = "VObj [(''text_messages'', VList [VStr ''Contoso sells tents''])]"
      and ms = "[VStr ''Contoso sells tents'']"]
  by (simp add: sample_defs start_def issued_def filesearch_world_def has_attr_def field_def)

subsection \<open>C5: the environment variables the script reads\<close>

text \<open>
  C5. A run of the script depends on the environment only through \<open>PROJECT_ENDPOINT\<close> and
  \<open>MODEL_DEPLOYMENT_NAME\<close>: replacing the environment by one that gives these two variables
  the same values leaves the run (result, calls, arguments, output) unchanged, in every
  world and from every namespace. \<open>PROJECT_ENDPOINT\<close> is the endpoint argument of the
  client, and \<open>MODEL_DEPLOYMENT_NAME\<close> is the model argument of the chat completion and of
  the agent creation of the region \<open>create_and_run_agent\<close>.
\<close>

theorem environment_reads:
  "((\<forall>k\<in>{''PROJECT_ENDPOINT'', ''MODEL_DEPLOYMENT_NAME''}. map_of e k = map_of (environ w) k) \<longrightarrow>
      quickstart (w\<lparr>environ := e\<rparr>) (start g) = quickstart w (start g)) \<and>
   (globals s ''os'' = Some OsModule \<and>
    map_of (environ w) ''PROJECT_ENDPOINT'' = Some endpoint \<and>
    map_of (environ w) ''MODEL_DEPLOYMENT_NAME'' = Some model \<and>
    chat_world w (issued s) cls cred_cls tool_cls cred pc oa response \<longrightarrow>
      filter is_call (trace (snd (chat_completion w s))) = filter is_call (trace s) @
        [Call cred_cls [],
         Call cls [(''endpoint'', VStr endpoint), (''credential'', cred)],
         Call (pc @ ''.get_openai_client'') [(''api_version'', VStr ''2024-06-01'')],
         Call (oa @ ''.chat.completions.create'') [(''model'', VStr model),
           (''messages'', VList [
              VObj [(''role'', VStr ''system''), (''content'', VStr ''You are a helpful writing assistant'')],
              VObj [(''role'', VStr ''user''), (''content'', VStr ''Write me a poem about flowers'')]])]]) \<and>
   (globals t ''project_client'' = Some (Handle pc) \<and>
    globals t ''os'' = Some OsModule \<and>
    map_of (environ w) ''MODEL_DEPLOYMENT_NAME'' = Some model \<and>
    lifecycle_world w (issued t) agent thread message run ms \<longrightarrow>
      trace (snd (create_and_run_agent w t)) ! length (trace t) =
        Call (pc @ ''.agents.create_agent'') [(''model'', VStr model), (''name'', VStr ''my-agent''),
           (''instructions'', VStr ''You are a helpful writing assistant'')])"
proof (intro conjI impI)
  assume "\<forall>k\<in>{''PROJECT_ENDPOINT'', ''MODEL_DEPLOYMENT_NAME''}. map_of e k = map_of (environ w) k"
  then have "agree {''PROJECT_ENDPOINT'', ''MODEL_DEPLOYMENT_NAME''}
      (issued (snd (quickstart w (start g)))) w (w\<lparr>environ := e\<rparr>)"
    by (simp add: agree_def)
  then show "quickstart (w\<lparr>environ := e\<rparr>) (start g) = quickstart w (start g)"
    using reads_only_quickstart unfolding reads_only_def by blast
next
  assume a: "globals s ''os'' = Some OsModule \<and>
    map_of (environ w) ''PROJECT_ENDPOINT'' = Some endpoint \<and>
    map_of (environ w) ''MODEL_DEPLOYMENT_NAME'' = Some model \<and>
    chat_world w (issued s) cls cred_cls tool_cls cred pc oa response"
  then have "globals s ''os'' = Some OsModule"
    and "map_of (environ w) ''PROJECT_ENDPOINT'' = Some endpoint"
    and "map_of (environ w) ''MODEL_DEPLOYMENT_NAME'' = Some model"
    and "chat_world w (issued s) cls cred_cls tool_cls cred pc oa response"
    by simp_all
  note r = chat_completion_run [OF this]
  show "filter is_call (trace (snd (chat_completion w s))) = filter is_call (trace s) @
        [Call cred_cls [],
         Call cls [(''endpoint'', VStr endpoint), (''credential'', cred)],
         Call (pc @ ''.get_openai_client'') [(''api_version'', VStr ''2024-06-01'')],
         Call (oa @ ''.chat.completions.create'') [(''model'', VStr model),
           (''messages'', VList [
              VObj [(''role'', VStr ''system''), (''content'', VStr ''You are a helpful writing assistant'')],
              VObj [(''role'', VStr ''user''), (''content'', VStr ''Write me a poem about flowers'')]])]]"
    by (simp add: r)
next
  assume a: "globals t ''project_client'' = Some (Handle pc) \<and>
    globals t ''os'' = Some OsModule \<and>
    map_of (environ w) ''MODEL_DEPLOYMENT_NAME'' = Some model \<and>
    lifecycle_world w (issued t) agent thread message run ms"
  then have "globals t ''project_client'' = Some (Handle pc)"
    and "globals t ''os'' = Some OsModule"
    and "map_of (environ w) ''MODEL_DEPLOYMENT_NAME'' = Some model"
    and "lifecycle_world w (issued t) agent thread message run ms"
    by simp_all
  note r = create_and_run_agent_run [OF this]
  show "trace (snd (create_and_run_agent w t)) ! length (trace t) =
        Call (pc @ ''.agents.create_agent'') [(''model'', VStr model), (''name'', VStr ''my-agent''),
           (''instructions'', VStr ''You are a helpful writing assistant'')]"
    by (simp add: r nth_append)
qed

theorem environment_reads_witness:
  "quickstart ((sample_world ''completed'' ''failed'')\<lparr>environ :=
       (''AZURE_CLIENT_ID'', ''0000'') # sample_environ @ [(''MODEL_DEPLOYMENT_NAME'', ''o3'')]\<rparr>)
     (start prepared) =
   quickstart (sample_world ''completed'' ''failed'') (start prepared) \<and>
   filter is_call (trace (snd (chat_completion (scripted chat_replies) (start prepared)))) =
     [Call ''DefaultAzureCredential'' [],
      Call ''AIProjectClient'' [(''endpoint'', VStr ''https://contoso.example/api/projects/demo''),
        (''credential'', Handle ''credential'')],
      Call ''client.get_openai_client'' [(''api_version'', VStr ''2024-06-01'')],
      Call ''openai.chat.completions.create'' [(''model'', VStr ''gpt-4o-mini''),
        (''messages'', VList [
           VObj [(''role'', VStr ''system''), (''content'', VStr ''You are a helpful writing assistant'')],
           VObj [(''role'', VStr ''user''), (''content'', VStr ''Write me a poem about flowers'')]])]]"
proof (intro conjI)
  show "quickstart ((sample_world ''completed'' ''failed'')\<lparr>environ :=
       (''AZURE_CLIENT_ID'', ''0000'') # sample_environ @ [(''MODEL_DEPLOYMENT_NAME'', ''o3'')]\<rparr>)
     (start prepared) =
   quickstart (sample_world ''completed'' ''failed'') (start prepared)"
    by (rule environment_reads [THEN conjunct1, rule_format]) (auto simp: sample_defs)
  have "filter is_call (trace (snd (chat_completion (scripted chat_replies) (start prepared)))) =
     filter is_call (trace (start prepared)) @
     [Call ''DefaultAzureCredential'' [],
      Call ''AIProjectClient'' [(''endpoint'', VStr ''https://contoso.example/api/projects/demo''),
        (''credential'', Handle ''credential'')],
      Call (''client'' @ ''.get_openai_client'') [(''api_version'', VStr ''2024-06-01'')],
      Call (''openai'' @ ''.chat.completions.create'') [(''model'', VStr ''gpt-4o-mini''),
        (''messages'', VList [
           VObj [(''role'', VStr ''system''), (''content'', VStr ''You are a helpful writing assistant'')],
           VObj [(''role'', VStr ''user''), (''content'', VStr ''Write me a poem about flowers'')]])]]"
    by (rule environment_reads [where tool_cls = "''FileSearchTool''" and response = sample_response,
          THEN conjunct2, THEN conjunct1, rule_format])
      (simp add: sample_defs start_def issued_def chat_world_def has_attr_def has_item_def
        field_def item_def index_def)
  then show "filter is_call (trace (snd (chat_completion (scripted chat_replies) (start prepared)))) =
     [Call ''DefaultAzureCredential'' [],
      Call ''AIProjectClient'' [(''endpoint'', VStr ''https://contoso.example/api/projects/demo''),
        (''credential'', Handle ''credential'')],
      Call ''client.get_openai_client'' [(''api_version'', VStr ''2024-06-01'')],
      Call ''openai.chat.completions.create'' [(''model'', VStr ''gpt-4o-mini''),
        (''messages'', VList [
           VObj [(''role'', VStr ''system''), (''content'', VStr ''You are a helpful writing assistant'')],
           VObj [(''role'', VStr ''user''), (''content'', VStr ''Write me a poem about flowers'')]])]]"
    by (simp add: start_def)
qed

subsection \<open>C6: exceptions are not handled\<close>



subsection \<open>C7: determinism\<close>



subsection \<open>C8: a failed run does not stop the script\<close>

text \<open>
  C8. In a world that answers every operation, whatever the statuses of the two runs are
  (in particular \<open>failed\<close>, provided the run then has a \<open>last_error\<close>), the script completes
  and issues the same calls: after each \<open>create_and_process\<close> come the listing or the
  deletions of its section, and the three calls of the evaluation come last.
\<close>

theorem failed_run_does_not_stop:
  assumes "g ''os'' = Some OsModule" and "g ''project'' = Some (Handle p)"
    and "map_of (environ w) ''PROJECT_ENDPOINT'' = Some endpoint"
    and "map_of (environ w) ''MODEL_DEPLOYMENT_NAME'' = Some model"
    and "env_loaded w 0 f"
    and "chat_world w 2 cls cred_cls tool_cls cred pc oa response"
    and "lifecycle_world w 9 agent1 thread1 message1 run1 ms1"
    and "filesearch_world w 15 uploaded vstore tool agent2 thread2 run2 listing ms2"
    and "evaluation_world w 26 ids result out" and "has_attr w run2 ''id''"
  shows "fst (quickstart w (start g)) = Inr () \<and>
     filter is_call (trace (snd (quickstart w (start g)))) =
       [Call f [],
        Call cred_cls [],
        Call cls [(''endpoint'', VStr endpoint), (''credential'', cred)],
        Call (pc @ ''.get_openai_client'') [(''api_version'', VStr ''2024-06-01'')],
        Call (oa @ ''.chat.completions.create'') [(''model'', VStr model),
          (''messages'', VList [
             VObj [(''role'', VStr ''system''), (''content'', VStr ''You are a helpful writing assistant'')],
             VObj [(''role'', VStr ''user''), (''content'', VStr ''Write me a poem about flowers'')]])],
        Call (pc @ ''.agents.create_agent'') [(''model'', VStr model), (''name'', VStr ''my-agent''),
           (''instructions'', VStr ''You are a helpful writing assistant'')],
        Call (pc @ ''.agents.threads.create'') [],
        Call (pc @ ''.agents.messages.create'') [(''thread_id'', field w thread1 ''id''),
           (''role'', VStr ''user''), (''content'', VStr ''Write me a poem about flowers'')],
        Call (pc @ ''.agents.runs.create_and_process'')
           [(''thread_id'', field w thread1 ''id''), (''agent_id'', field w agent1 ''id'')],
        Call (pc @ ''.agents.messages.list'') [(''thread_id'', field w thread1 ''id'')],
        Call (pc @ ''.agents.delete_agent'') [([], field w agent1 ''id'')],
        Call (p @ ''.agents.files.upload'')
          [(''file_path'', VStr ''product_info_1.md''), (''purpose'', VStr ''agents'')],
        Call (p @ ''.agents.vector_stores.create_and_poll'')
          [(''file_ids'', VList [field w uploaded ''id'']), (''name'', VStr ''my_vectorstore'')],
        Call tool_cls [(''vector_store_ids'', VList [field w vstore ''id''])],
        Call (p @ ''.agents.create_agent'') [(''model'', VStr ''gpt-4o''), (''name'', VStr ''my-assistant''),
          (''instructions'',
             VStr ''You are a helpful assistant and can search information from uploaded files''),
          (''tools'', field w tool ''definitions''),
          (''tool_resources'', field w tool ''resources'')],
        Call (p @ ''.agents.threads.create'') [],
        Call (p @ ''.agents.messages.create'') [(''thread_id'', field w thread2 ''id''),
          (''role'', VStr ''user''), (''content'', VStr ''Hello, what Contoso products do you know?'')],
        Call (p @ ''.agents.runs.create_and_process'')
          [(''thread_id'', field w thread2 ''id''), (''agent_id'', field w agent2 ''id'')],
        Call (p @ ''.agents.vector_stores.delete'') [([], field w vstore ''id'')],
        Call (p @ ''.agents.files.delete'') [(''file_id'', field w uploaded ''id'')],
        Call (p @ ''.agents.delete_agent'') [([], field w agent2 ''id'')],
        Call (p @ ''.agents.messages.list'') [(''thread_id'', field w thread2 ''id'')],
        Call (p @ ''.evaluation.create_agent_evaluation'')
          [(''thread'', field w thread2 ''id''), (''run'', field w run2 ''id''),
           (''evaluators'', VList [field w ids ''AGENT_QUALITY_EVALUATOR''])],
        Call (result @ ''.wait_for_completion'') [],
        Call (result @ ''.output'') []]"
  by (simp add: quickstart_run [OF assms])

theorem failed_run_does_not_stop_witness:
  "fst (quickstart (sample_world ''failed'' ''failed'') (start prepared)) = Inr () \<and>
   length (filter is_call
     (trace (snd (quickstart (sample_world ''failed'' ''failed'') (start prepared))))) = 25 \<and>
   field (sample_world ''failed'' ''failed'') (sample_run ''run_1'' ''failed'') ''status'' = VStr ''failed'' \<and>
   field (sample_world ''failed'' ''failed'') (sample_run ''run_2'' ''failed'') ''status'' = VStr ''failed''"
  using failed_run_does_not_stop [OF sample_world_env sample_world_answers, of "''failed''" "''failed''"]
  by (simp add: field_def sample_run_def)

subsection \<open>C9: the cleanup comes before the listing\<close>

text \<open>
  C9. The whole trace of the region \<open>create_filesearch_agent\<close>: after the run and the status
  check, the vector store is deleted, then the uploaded file, then the agent; only then
  are the messages of the thread listed, and the printed messages are the last events.
\<close>

theorem cleanup_precedes_listing:
  assumes "globals s ''project'' = Some (Handle p)"
    and "globals s ''FileSearchTool'' = Some (Handle tool_cls)"
    and "filesearch_world w (issued s) uploaded vstore tool agent thread run listing ms"
  shows "trace (snd (create_filesearch_agent w s)) = trace s @
       [Call (p @ ''.agents.files.upload'')
          [(''file_path'', VStr ''product_info_1.md''), (''purpose'', VStr ''agents'')],
        Call (p @ ''.agents.vector_stores.create_and_poll'')
          [(''file_ids'', VList [field w uploaded ''id'']), (''name'', VStr ''my_vectorstore'')],
        Call tool_cls [(''vector_store_ids'', VList [field w vstore ''id''])],
        Call (p @ ''.agents.create_agent'') [(''model'', VStr ''gpt-4o''), (''name'', VStr ''my-assistant''),
          (''instructions'',
             VStr ''You are a helpful assistant and can search information from uploaded files''),
          (''tools'', field w tool ''definitions''),
          (''tool_resources'', field w tool ''resources'')],
        Call (p @ ''.agents.threads.create'') [],
        Call (p @ ''.agents.messages.create'') [(''thread_id'', field w thread ''id''),
          (''role'', VStr ''user''), (''content'', VStr ''Hello, what Contoso products do you know?'')],
        Call (p @ ''.agents.runs.create_and_process'')
          [(''thread_id'', field w thread ''id''), (''agent_id'', field w agent ''id'')]] @
       failure_line w run @
       [Call (p @ ''.agents.vector_stores.delete'') [([], field w vstore ''id'')],
        Call (p @ ''.agents.files.delete'') [(''file_id'', field w uploaded ''id'')],
        Call (p @ ''.agents.delete_agent'') [([], field w agent ''id'')],
        Call (p @ ''.agents.messages.list'') [(''thread_id'', field w thread ''id'')]] @
       map (\<lambda>m. Print [m]) ms"
  by (simp add: create_filesearch_agent_run [OF assms])

theorem cleanup_precedes_listing_witness:
  "drop 7 (trace (snd (create_filesearch_agent (scripted (filesearch_replies ''completed''))
          (start (prepared(''FileSearchTool'' \<mapsto> Handle ''FileSearchTool'')))))) =
       [Call ''project.agents.vector_stores.delete'' [([], VStr ''vs_1'')],
        Call ''project.agents.files.delete'' [(''file_id'', VStr ''file_1'')],
        Call ''project.agents.delete_agent'' [([], VStr ''asst_2'')],
        Call ''project.agents.messages.list'' [(''thread_id'', VStr ''thread_2'')],
        Print [VStr ''Contoso sells tents'']]"
  using cleanup_precedes_listing [where s = "start (prepared(''FileSearchTool'' \<mapsto> Handle ''FileSearchTool''))"
      and p = "''project''" and tool_cls = "''FileSearchTool''"
      and w = "scripted (filesearch_replies ''completed'')"
      and uploaded = "VObj [(''id'', VStr ''file_1'')]" and vstore = "VObj [(''id'', VStr ''vs_1'')]"
      and tool = sample_tool and agent = "VObj [(''id'', VStr ''asst_2'')]"
      and thread = "VObj [(''id'', VStr ''thread_2'')]" and run = "sample_run ''run_2'' ''completed''"
      and listing = "VObj [(''text_messages'', VList [VStr ''Contoso sells tents''])]"
      and ms = "[VStr ''Contoso sells tents'']"]
  by (simp add: sample_defs start_def issued_def filesearch_world_def has_attr_def field_def
      failure_line_def)

subsection \<open>C10: the model of the file-search agent\<close>

text \<open>
  C10. The region \<open>create_filesearch_agent\<close> does not depend on the environment at all:
  replacing the environment by any other leaves its run unchanged. Where it reaches the
  agent creation, its fourth event, the model argument is the literal \<open>gpt-4o\<close>.
\<close>

theorem filesearch_model_is_fixed:
  "create_filesearch_agent (w\<lparr>environ := e\<rparr>) s = create_filesearch_agent w s \<and>
   (globals s ''project'' = Some (Handle p) \<and>
    globals s ''FileSearchTool'' = Some (Handle tool_cls) \<and>
    filesearch_world w (issued s) uploaded vstore tool agent thread run listing ms \<longrightarrow>
    trace (snd (create_filesearch_agent (w\<lparr>environ := e\<rparr>) s)) ! (length (trace s) + 3) =
      Call (p @ ''.agents.create_agent'') [(''model'', VStr ''gpt-4o''), (''name'', VStr ''my-assistant''),
        (''instructions'',
           VStr ''You are a helpful assistant and can search information from uploaded files''),
        (''tools'', field w tool ''definitions''),
        (''tool_resources'', field w tool ''resources'')])"
proof (intro conjI impI)
  have "agree {} (issued (snd (create_filesearch_agent w s))) w (w\<lparr>environ := e\<rparr>)"
    by (simp add: agree_def)
  then show same: "create_filesearch_agent (w\<lparr>environ := e\<rparr>) s = create_filesearch_agent w s"
    using reads_only_filesearch unfolding reads_only_def by blast
  assume a: "globals s ''project'' = Some (Handle p) \<and>
    globals s ''FileSearchTool'' = Some (Handle tool_cls) \<and>
    filesearch_world w (issued s) uploaded vstore tool agent thread run listing ms"
  show "trace (snd (create_filesearch_agent (w\<lparr>environ := e\<rparr>) s)) ! (length (trace s) + 3) =
      Call (p @ ''.agents.create_agent'') [(''model'', VStr ''gpt-4o''), (''name'', VStr ''my-assistant''),
        (''instructions'',
           VStr ''You are a helpful assistant and can search information from uploaded files''),
        (''tools'', field w tool ''definitions''),
        (''tool_resources'', field w tool ''resources'')]"
    using a by (simp add: same create_filesearch_agent_run [of s p tool_cls w uploaded vstore tool agent thread run listing ms] nth_append)
qed

theorem filesearch_model_is_fixed_witness:
  "create_filesearch_agent ((scripted (filesearch_replies ''completed''))\<lparr>environ := [(''MODEL_DEPLOYMENT_NAME'', ''o3'')]\<rparr>)
      (start (prepared(''FileSearchTool'' \<mapsto> Handle ''FileSearchTool''))) =
   create_filesearch_agent (scripted (filesearch_replies ''completed''))
      (start (prepared(''FileSearchTool'' \<mapsto> Handle ''FileSearchTool''))) \<and>
   trace (snd (create_filesearch_agent ((scripted (filesearch_replies ''completed''))\<lparr>environ := [(''MODEL_DEPLOYMENT_NAME'', ''o3'')]\<rparr>)
      (start (prepared(''FileSearchTool'' \<mapsto> Handle ''FileSearchTool''))))) ! 3 =
     Call ''project.agents.create_agent'' [(''model'', VStr ''gpt-4o''), (''name'', VStr ''my-assistant''),
          (''instructions'',
             VStr ''You are a helpful assistant and can search information from uploaded files''),
          (''tools'', VList [VObj [(''type'', VStr ''file_search'')]]),
          (''tool_resources'',
             VObj [(''file_search'', VObj [(''vector_store_ids'', VList [VStr ''vs_1''])])])]"
proof (intro conjI)
  note inst = filesearch_model_is_fixed [where s = "start (prepared(''FileSearchTool'' \<mapsto> Handle ''FileSearchTool''))"
      and p = "''project''" and tool_cls = "''FileSearchTool''"
      and w = "scripted (filesearch_replies ''completed'')"
      and e = "[(''MODEL_DEPLOYMENT_NAME'', ''o3'')]"
      and uploaded = "VObj [(''id'', VStr ''file_1'')]" and vstore = "VObj [(''id'', VStr ''vs_1'')]"
      and tool = sample_tool and agent = "VObj [(''id'', VStr ''asst_2'')]"
      and thread = "VObj [(''id'', VStr ''thread_2'')]" and run = "sample_run ''run_2'' ''completed''"
      and listing = "VObj [(''text_messages'', VList [VStr ''Contoso sells tents''])]"
      and ms = "[VStr ''Contoso sells tents'']"]
  show "create_filesearch_agent ((scripted (filesearch_replies ''completed''))\<lparr>environ := [(''MODEL_DEPLOYMENT_NAME'', ''o3'')]\<rparr>)
      (start (prepared(''FileSearchTool'' \<mapsto> Handle ''FileSearchTool''))) =
   create_filesearch_agent (scripted (filesearch_replies ''completed''))
      (start (prepared(''FileSearchTool'' \<mapsto> Handle ''FileSearchTool'')))"
    using inst by (rule conjunct1)
  have "trace (snd (create_filesearch_agent ((scripted (filesearch_replies ''completed''))\<lparr>environ := [(''MODEL_DEPLOYMENT_NAME'', ''o3'')]\<rparr>)
      (start (prepared(''FileSearchTool'' \<mapsto> Handle ''FileSearchTool''))))) ! (length (trace (start (prepared(''FileSearchTool'' \<mapsto> Handle ''FileSearchTool'')))) + 3) =
      Call (''project'' @ ''.agents.create_agent'') [(''model'', VStr ''gpt-4o''), (''name'', VStr ''my-assistant''),
        (''instructions'',
           VStr ''You are a helpful assistant and can search information from uploaded files''),
        (''tools'', field (scripted (filesearch_replies ''completed'')) sample_tool ''definitions''),
        (''tool_resources'', field (scripted (filesearch_replies ''completed'')) sample_tool ''resources'')]"
    by (rule inst [THEN conjunct2, rule_format])
      (simp add: sample_defs start_def issued_def filesearch_world_def has_attr_def field_def)
  then show "trace (snd (create_filesearch_agent ((scripted (filesearch_replies ''completed''))\<lparr>environ := [(''MODEL_DEPLOYMENT_NAME'', ''o3'')]\<rparr>)
      (start (prepared(''FileSearchTool'' \<mapsto> Handle ''FileSearchTool''))))) ! 3 =
     Call ''project.agents.create_agent'' [(''model'', VStr ''gpt-4o''), (''name'', VStr ''my-assistant''),
          (''instructions'',
             VStr ''You are a helpful assistant and can search information from uploaded files''),
          (''tools'', VList [VObj [(''type'', VStr ''file_search'')]]),
          (''tool_resources'',
             VObj [(''file_search'', VObj [(''vector_store_ids'', VList [VStr ''vs_1''])])])]"
    by (simp add: start_def field_def sample_tool_def)
qed

end
